theory Spec2Isabelle
  imports Complex_Main
begin

section \<open>The fully connected layer of fully\_connect\_op-inl.h\<close>

subsection \<open>Enumerations of the header\<close>

text \<open>
  \<^verbatim>\<open>enum FullyConnectOpInputs {kData, kWeight, kBias};\<close> and
  \<^verbatim>\<open>enum FullyConnectOpOutputs {kOut};\<close> are plain C enumerations, used only as
  positions in the slot vectors.
\<close>

definition kData :: nat where "kData = 0"
definition kWeight :: nat where "kWeight = 1"
definition kBias :: nat where "kBias = 2"
definition kOut :: nat where "kOut = 0"

subsection \<open>Failures\<close>

text \<open>
  A failed \<^verbatim>\<open>CHECK\<close>, \<^verbatim>\<open>CHECK_EQ\<close>, \<^verbatim>\<open>CHECK_NE\<close> or \<^verbatim>\<open>CHECK_GT\<close> ends the call
  (\<open>CheckFailed\<close>). The tensor layer refuses an assignment whose two sides have different
  shapes (\<open>ShapeError\<close>). \<^verbatim>\<open>std::vector::operator[]\<close> beyond the end of the vector has no
  defined behaviour in C++; the model stops there with \<open>OutOfRange\<close>, and the theorems
  about what a call returns or checks leave such calls out.
\<close>

datatype error = CheckFailed | ShapeError | OutOfRange

subsection \<open>Configuration and shapes\<close>

text \<open>
  Modelled from the spec: \<^verbatim>\<open>Param\<close> is declared in param.h, which is not part of the
  sources at hand. The layer reads two of its fields: the hidden-unit count
  (\<^verbatim>\<open>num_hidden\<close>, which has to be positive) and the no-bias flag (\<^verbatim>\<open>no_bias\<close>: 0 means
  the layer has a bias, anything else that it has none). Both are C \<^verbatim>\<open>int\<close>s that are
  only compared with 0 and, once known to be positive, used as an extent.
\<close>

record Param =
  num_hidden :: int
  no_bias :: int

text \<open>
  Modelled from the spec: \<^verbatim>\<open>TShape\<close> belongs to the tensor library. A shape is an
  ordered sequence of non-negative extents; a shape that is not known yet has no
  extents at all (\<^verbatim>\<open>ndim() == 0\<close>, "Require data shape to be known").
\<close>

type_synonym index_t = nat
type_synonym TShape = "index_t list"

definition ndim :: "TShape \<Rightarrow> nat" where
  "ndim s = length s"

definition shape_known :: "TShape \<Rightarrow> bool" where
  "shape_known s \<longleftrightarrow> ndim s \<noteq> 0"

definition Shape1 :: "index_t \<Rightarrow> TShape" where
  "Shape1 s0 = [s0]"

definition Shape2 :: "index_t \<Rightarrow> index_t \<Rightarrow> TShape" where
  "Shape2 s0 s1 = [s0, s1]"

text \<open>
  Modelled from the spec: \<^verbatim>\<open>ShapeAssignCheck\<close> is declared in
  static\_operator\_common.h, which is not part of the sources at hand. The rule is:
  if the target shape slot is unknown, fill it; if it is known, verify equality;
  a mismatch is a hard failure. The result is the new content of the slot.
\<close>

definition ShapeAssignCheck :: "TShape \<Rightarrow> TShape \<Rightarrow> error + TShape" where
  "ShapeAssignCheck out shape =
     (if ndim out = 0 then Inr shape
      else if out = shape then Inr out
      else Inl CheckFailed)"

subsection \<open>FullyConnectSymbol\<close>

definition ListArguments :: "Param \<Rightarrow> string list" where
  "ListArguments param =
     (if no_bias param = 0 then [''data'', ''weight'', ''bias'']
      else [''data'', ''weight''])"

text \<open>
  \<^verbatim>\<open>InferShape\<close> works on two vectors it receives by pointer and changes in place. The
  model returns what the call leaves in both vectors together with its outcome:
  \<open>Inr r\<close> when the method returns \<open>r\<close>, \<open>Inl e\<close> when a check ends it. A failure
  keeps whatever was already written (a weight slot filled before the bias check
  fails stays filled).
\<close>

definition InferShape ::
  "Param \<Rightarrow> TShape list \<Rightarrow> TShape list \<Rightarrow> (error + bool) \<times> TShape list \<times> TShape list" where
  "InferShape param in_shape out_shape =
     (if length in_shape \<noteq> (if no_bias param = 0 then 3 else 2)
        then (Inl CheckFailed, in_shape, out_shape)
      else if \<not> num_hidden param > 0
        then (Inl CheckFailed, in_shape, out_shape)
      else let dshape = in_shape ! 0 in
      if ndim dshape \<noteq> 4 then (Inl CheckFailed, in_shape, out_shape)
      else if ndim dshape = 0 then (Inl CheckFailed, in_shape, out_shape)
      else
        (case ShapeAssignCheck (in_shape ! kWeight)
                (Shape2 (nat (num_hidden param)) (dshape ! 3)) of
           Inl e \<Rightarrow> (Inl e, in_shape, out_shape)
         | Inr wshape \<Rightarrow>
             let in_shape1 = in_shape[kWeight := wshape] in
             (case (if no_bias param = 0
                    then ShapeAssignCheck (in_shape1 ! kBias)
                           (Shape1 (nat (num_hidden param)))
                    else Inr []) of
                Inl e \<Rightarrow> (Inl e, in_shape1, out_shape)
              | Inr bshape \<Rightarrow>
                  let in_shape2 = (if no_bias param = 0
                                   then in_shape1[kBias := bshape] else in_shape1)
                  in (Inr True, in_shape2, [dshape[3 := nat (num_hidden param)]]))))"

text \<open>
  \<^verbatim>\<open>DeclareBackwardDependency\<close> reads three positions of the vectors it is given,
  without looking at their sizes.
\<close>

definition DeclareBackwardDependency ::
  "int list \<Rightarrow> int list \<Rightarrow> int list \<Rightarrow> error + int list" where
  "DeclareBackwardDependency out_grad in_data out_data =
     (if length out_grad \<le> kOut \<or> length in_data \<le> kData \<or> length in_data \<le> kWeight
      then Inl OutOfRange
      else Inr [out_grad ! kOut, in_data ! kData, in_data ! kWeight])"

subsection \<open>Buffers, blobs and tensor views\<close>

text \<open>
  Modelled from the spec: the tensor type, its views and its algebra belong to the
  tensor library and are not part of the sources at hand. A tensor is an array view
  with a shape over a buffer; the operator never allocates one, it receives them and
  writes into them. The element type is fixed to a single floating-point precision
  (\<^verbatim>\<open>real_t\<close>, a C \<^verbatim>\<open>float\<close>); the model leaves the type of the elements open
  (\<open>'a\<close>) and never computes with them itself.

  A buffer is named by its address; the store gives every cell (address and offset)
  its content. Two blobs share memory exactly when their addresses are equal; a blob
  is taken to own at least as many cells as its shape has elements.
\<close>

type_synonym addr = nat
type_synonym 'a store = "addr \<Rightarrow> nat \<Rightarrow> 'a"

record TBlob =
  dptr :: addr
  tshape :: TShape

record Tensor1 =
  dptr1 :: addr
  len1 :: index_t

record Tensor2 =
  dptr2 :: addr
  rows2 :: index_t
  cols2 :: index_t

text \<open>
  Modelled from the spec: the arithmetic of the tensor library (multiply, broadcast,
  reduction) is an external collaborator on floating-point elements. How it rounds
  and in which order it sums is not fixed by the operator, so it is a parameter of
  the model: \<open>lib_dot\<close> gives the cell \<open>(y, x)\<close> of the matrix product of two
  operands, each given by its shape and its cells; \<open>lib_plus\<close> adds two elements;
  \<open>lib_sum_rows\<close> gives the entry \<open>x\<close> of the sum of a matrix over its rows.
\<close>

record 'a tensor_lib =
  lib_dot :: "index_t \<times> index_t \<Rightarrow> (nat \<Rightarrow> nat \<Rightarrow> 'a)
                \<Rightarrow> index_t \<times> index_t \<Rightarrow> (nat \<Rightarrow> nat \<Rightarrow> 'a) \<Rightarrow> nat \<Rightarrow> nat \<Rightarrow> 'a"
  lib_plus :: "'a \<Rightarrow> 'a \<Rightarrow> 'a"
  lib_sum_rows :: "index_t \<times> index_t \<Rightarrow> (nat \<Rightarrow> nat \<Rightarrow> 'a) \<Rightarrow> nat \<Rightarrow> 'a"

text \<open>
  Modelled from the spec: the write mode of a slot is one of Overwrite
  (\<^verbatim>\<open>kWriteTo\<close>), WriteInPlace (\<^verbatim>\<open>kWriteInplace\<close>) and AccumulateAdd (\<open>kAddTo\<close>); the
  enumeration is declared in the operator interface, outside the sources at hand.
\<close>

datatype OpReqType = kWriteTo | kWriteInplace | kAddTo

text \<open>
  Modelled from the spec: \<^verbatim>\<open>FlatTo2D\<close> views a blob as a matrix
  \<open>[batch, inFeatures]\<close> by collapsing all trailing non-batch dimensions; a blob
  without extents has no element.
\<close>

definition FlatTo2D :: "TBlob \<Rightarrow> Tensor2" where
  "FlatTo2D b =
     (case tshape b of
        [] \<Rightarrow> \<lparr>dptr2 = dptr b, rows2 = 0, cols2 = 0\<rparr>
      | d0 # ds \<Rightarrow> \<lparr>dptr2 = dptr b, rows2 = d0, cols2 = prod_list ds\<rparr>)"

text \<open>
  Modelled from the spec: \<^verbatim>\<open>get<xpu, dim, real_t>\<close> gives the view of a blob as a
  tensor of exactly \<open>dim\<close> dimensions; a blob of another rank has no such view.
\<close>

definition get1 :: "TBlob \<Rightarrow> error + Tensor1" where
  "get1 b =
     (case tshape b of
        [n] \<Rightarrow> Inr \<lparr>dptr1 = dptr b, len1 = n\<rparr>
      | _ \<Rightarrow> Inl CheckFailed)"

definition get2 :: "TBlob \<Rightarrow> error + Tensor2" where
  "get2 b =
     (case tshape b of
        [r, c] \<Rightarrow> Inr \<lparr>dptr2 = dptr b, rows2 = r, cols2 = c\<rparr>
      | _ \<Rightarrow> Inl CheckFailed)"

subsection \<open>Tensor expressions\<close>

text \<open>
  Modelled from the spec: the right-hand sides the operator builds from the tensor
  library: a tensor itself, the matrix product \<^verbatim>\<open>dot\<close>, the transposed view
  \<^verbatim>\<open>.T()\<close>, the broadcast \<^verbatim>\<open>repmat\<close> of a vector to every row of a matrix, and
  the reduction \<^verbatim>\<open>sum_rows\<close> of a matrix across its rows (the batch). An expression
  has a shape, its operands may or may not fit together, and it is evaluated when it
  is assigned, on the store of that moment. Matrices are stored row by row; a
  transposed view and a broadcast move no data.
\<close>

datatype Exp2 = tensor Tensor2 | dot Exp2 Exp2 | Tr Exp2 | repmat Tensor1 index_t

datatype Exp1 = sum_rows Tensor2

fun shape2 :: "Exp2 \<Rightarrow> index_t \<times> index_t" where
  "shape2 (tensor t) = (rows2 t, cols2 t)"
| "shape2 (dot a b) = (fst (shape2 a), snd (shape2 b))"
| "shape2 (Tr a) = (snd (shape2 a), fst (shape2 a))"
| "shape2 (repmat v n) = (n, len1 v)"

fun ShapeCheck2 :: "Exp2 \<Rightarrow> bool" where
  "ShapeCheck2 (tensor t) \<longleftrightarrow> True"
| "ShapeCheck2 (dot a b) \<longleftrightarrow>
     ShapeCheck2 a \<and> ShapeCheck2 b \<and> snd (shape2 a) = fst (shape2 b)"
| "ShapeCheck2 (Tr a) \<longleftrightarrow> ShapeCheck2 a"
| "ShapeCheck2 (repmat v n) \<longleftrightarrow> True"

fun Eval2 :: "'a tensor_lib \<Rightarrow> 'a store \<Rightarrow> Exp2 \<Rightarrow> nat \<Rightarrow> nat \<Rightarrow> 'a" where
  "Eval2 lib s (tensor t) y x = s (dptr2 t) (y * cols2 t + x)"
| "Eval2 lib s (dot a b) y x =
     lib_dot lib (shape2 a) (\<lambda>i k. Eval2 lib s a i k)
                 (shape2 b) (\<lambda>k j. Eval2 lib s b k j) y x"
| "Eval2 lib s (Tr a) y x = Eval2 lib s a x y"
| "Eval2 lib s (repmat v n) y x = s (dptr1 v) x"

fun shape1 :: "Exp1 \<Rightarrow> index_t" where
  "shape1 (sum_rows t) = cols2 t"

fun Eval1 :: "'a tensor_lib \<Rightarrow> 'a store \<Rightarrow> Exp1 \<Rightarrow> nat \<Rightarrow> 'a" where
  "Eval1 lib s (sum_rows t) x =
     lib_sum_rows lib (rows2 t, cols2 t) (\<lambda>i j. s (dptr2 t) (i * cols2 t + j)) x"

text \<open>
  The two assignment operators of a tensor, \<^verbatim>\<open>out = exp\<close> and \<^verbatim>\<open>out += exp\<close>. The
  shapes of both sides are compared first; when they differ nothing is written.
\<close>

definition assign_to2 ::
  "'a tensor_lib \<Rightarrow> Tensor2 \<Rightarrow> Exp2 \<Rightarrow> 'a store \<Rightarrow> error option \<times> 'a store" where
  "assign_to2 lib out e s =
     (if ShapeCheck2 e \<and> shape2 e = (rows2 out, cols2 out)
      then (None, s(dptr2 out := (\<lambda>k. if k < rows2 out * cols2 out
                     then Eval2 lib s e (k div cols2 out) (k mod cols2 out)
                     else s (dptr2 out) k)))
      else (Some ShapeError, s))"

definition plus_to2 ::
  "'a tensor_lib \<Rightarrow> Tensor2 \<Rightarrow> Exp2 \<Rightarrow> 'a store \<Rightarrow> error option \<times> 'a store" where
  "plus_to2 lib out e s =
     (if ShapeCheck2 e \<and> shape2 e = (rows2 out, cols2 out)
      then (None, s(dptr2 out := (\<lambda>k. if k < rows2 out * cols2 out
                     then lib_plus lib (s (dptr2 out) k)
                            (Eval2 lib s e (k div cols2 out) (k mod cols2 out))
                     else s (dptr2 out) k)))
      else (Some ShapeError, s))"

definition assign_to1 ::
  "'a tensor_lib \<Rightarrow> Tensor1 \<Rightarrow> Exp1 \<Rightarrow> 'a store \<Rightarrow> error option \<times> 'a store" where
  "assign_to1 lib out e s =
     (if shape1 e = len1 out
      then (None, s(dptr1 out := (\<lambda>k. if k < len1 out then Eval1 lib s e k
                                          else s (dptr1 out) k)))
      else (Some ShapeError, s))"

definition plus_to1 ::
  "'a tensor_lib \<Rightarrow> Tensor1 \<Rightarrow> Exp1 \<Rightarrow> 'a store \<Rightarrow> error option \<times> 'a store" where
  "plus_to1 lib out e s =
     (if shape1 e = len1 out
      then (None, s(dptr1 out := (\<lambda>k. if k < len1 out
                     then lib_plus lib (s (dptr1 out) k) (Eval1 lib s e k)
                     else s (dptr1 out) k)))
      else (Some ShapeError, s))"

text \<open>
  Modelled from the spec: \<^verbatim>\<open>Assign\<close> is declared in static\_operator\_common.h, which
  is not part of the sources at hand. It writes a result as the write mode of the
  slot says: Overwrite replaces the content of the buffer, AccumulateAdd adds into
  the existing content, WriteInPlace writes into a buffer that aliases an input.
\<close>

definition Assign2 ::
  "'a tensor_lib \<Rightarrow> Tensor2 \<Rightarrow> OpReqType \<Rightarrow> Exp2 \<Rightarrow> 'a store \<Rightarrow> error option \<times> 'a store" where
  "Assign2 lib out req e s =
     (case req of
        kWriteTo \<Rightarrow> assign_to2 lib out e s
      | kWriteInplace \<Rightarrow> assign_to2 lib out e s
      | kAddTo \<Rightarrow> plus_to2 lib out e s)"

definition Assign1 ::
  "'a tensor_lib \<Rightarrow> Tensor1 \<Rightarrow> OpReqType \<Rightarrow> Exp1 \<Rightarrow> 'a store \<Rightarrow> error option \<times> 'a store" where
  "Assign1 lib out req e s =
     (case req of
        kWriteTo \<Rightarrow> assign_to1 lib out e s
      | kWriteInplace \<Rightarrow> assign_to1 lib out e s
      | kAddTo \<Rightarrow> plus_to1 lib out e s)"

subsection \<open>FullyConnectOp\<close>

text \<open>
  \<^verbatim>\<open>Forward\<close> and \<^verbatim>\<open>Backward\<close> take the tensor library and the store and return the
  outcome of the call (\<open>None\<close> for a normal return, \<open>Some e\<close> when a check ended it)
  with the store as the call leaves it. The execution context only carries the device
  stream and the forward option is not read; both are left out.
\<close>

definition Forward ::
  "'a tensor_lib \<Rightarrow> Param \<Rightarrow> TBlob list \<Rightarrow> OpReqType list \<Rightarrow> TBlob list \<Rightarrow> 'a store
     \<Rightarrow> error option \<times> 'a store" where
  "Forward lib param in_data req out_data s =
     (if length req \<le> kOut then (Some OutOfRange, s)
      else if req ! kOut \<noteq> kWriteTo then (Some CheckFailed, s)
      else if length in_data \<noteq> (if no_bias param = 0 then 3 else 2)
        then (Some CheckFailed, s)
      else if length out_data \<noteq> 1 then (Some CheckFailed, s)
      else
        let data = FlatTo2D (in_data ! kData) in
        (case get2 (in_data ! kWeight) of
           Inl e \<Rightarrow> (Some e, s)
         | Inr wmat \<Rightarrow>
             let out = FlatTo2D (out_data ! kOut) in
             (case assign_to2 lib out (dot (tensor data) (Tr (tensor wmat))) s of
                (Some e, s1) \<Rightarrow> (Some e, s1)
              | (None, s1) \<Rightarrow>
                  if no_bias param = 0
                  then (case get1 (in_data ! kBias) of
                          Inl e \<Rightarrow> (Some e, s1)
                        | Inr bias \<Rightarrow> plus_to2 lib out (repmat bias (rows2 data)) s1)
                  else (None, s1))))"

definition Backward ::
  "'a tensor_lib \<Rightarrow> Param \<Rightarrow> TBlob list \<Rightarrow> TBlob list \<Rightarrow> TBlob list \<Rightarrow> OpReqType list
     \<Rightarrow> TBlob list \<Rightarrow> 'a store \<Rightarrow> error option \<times> 'a store" where
  "Backward lib param out_grad in_data out_data req in_grad s =
     (if length out_grad \<noteq> 1 then (Some CheckFailed, s)
      else if \<not> (length in_data = (if no_bias param = 0 then 3 else 2)
                \<and> length in_grad = (if no_bias param = 0 then 3 else 2))
        then (Some CheckFailed, s)
      else if length req \<noteq> (if no_bias param = 0 then 3 else 2)
        then (Some CheckFailed, s)
      else
        let data = FlatTo2D (in_data ! kData) in
        (case get2 (in_data ! kWeight) of
           Inl e \<Rightarrow> (Some e, s)
         | Inr wmat \<Rightarrow>
             let grad = FlatTo2D (out_grad ! kOut) in
             if req ! kWeight = kWriteInplace then (Some CheckFailed, s)
             else
               (case get2 (in_grad ! kWeight) of
                  Inl e \<Rightarrow> (Some e, s)
                | Inr gwmat \<Rightarrow>
                    (case Assign2 lib gwmat (req ! kWeight)
                            (dot (Tr (tensor grad)) (tensor data)) s of
                       (Some e, s1) \<Rightarrow> (Some e, s1)
                     | (None, s1) \<Rightarrow>
                         (case (if no_bias param = 0
                                then (case get1 (in_grad ! kBias) of
                                        Inl e \<Rightarrow> (Some e, s1)
                                      | Inr gbias \<Rightarrow>
                                          Assign1 lib gbias (req ! kBias) (sum_rows grad) s1)
                                else (None, s1)) of
                            (Some e, s2) \<Rightarrow> (Some e, s2)
                          | (None, s2) \<Rightarrow>
                              let gdata = FlatTo2D (in_grad ! kData) in
                              Assign2 lib gdata (req ! kData)
                                (dot (tensor grad) (tensor wmat)) s2)))))"

subsection \<open>Notions used to state what a call reads\<close>

text \<open>
  Two stores agree on a set of buffers when these buffers have the same content in
  both; a computation reads only these buffers when, started in two stores that agree
  on them, it has the same outcome and leaves stores that agree on them again.
\<close>

definition agree_on :: "addr set \<Rightarrow> 'a store \<Rightarrow> 'a store \<Rightarrow> bool" where
  "agree_on A s1 s2 \<longleftrightarrow> (\<forall>a \<in> A. s1 a = s2 a)"

definition reads_only :: "addr set \<Rightarrow> ('a store \<Rightarrow> error option \<times> 'a store) \<Rightarrow> bool" where
  "reads_only A F \<longleftrightarrow>
     (\<forall>s1 s2. agree_on A s1 s2 \<longrightarrow>
        fst (F s1) = fst (F s2) \<and> agree_on A (snd (F s1)) (snd (F s2)))"

subsection \<open>Notions used to state what a call writes\<close>

text \<open>
  The matrix with \<open>n\<close> columns that a buffer holds row by row, and the same matrix
  transposed.
\<close>

definition cells :: "'a store \<Rightarrow> addr \<Rightarrow> nat \<Rightarrow> nat \<Rightarrow> nat \<Rightarrow> 'a" where
  "cells s p n y x = s p (y * n + x)"

definition cellsT :: "'a store \<Rightarrow> addr \<Rightarrow> nat \<Rightarrow> nat \<Rightarrow> nat \<Rightarrow> 'a" where
  "cellsT s p n y x = s p (x * n + y)"

subsection \<open>Single-precision arithmetic on whole numbers\<close>

text \<open>
  The elements of the code are C \<^verbatim>\<open>float\<close>s: binary floating-point numbers with a
  significand of 24 bits, every operation rounded to the nearest such number, ties to
  the even significand. Whole numbers are closed under the rounded sum and product,
  so the examples compute on integers: \<open>float32 n\<close> is the \<^verbatim>\<open>float\<close> nearest to the
  whole number \<open>n\<close> (below the overflow threshold of the format). \<open>excess m\<close> is the
  number of low bits of \<open>m\<close> that do not fit into the significand.
\<close>

fun excess :: "nat \<Rightarrow> nat" where
  "excess m = (if m < 2 ^ 24 then 0 else Suc (excess (m div 2)))"

definition float32 :: "int \<Rightarrow> int" where
  "float32 n =
     (let m = nat \<bar>n\<bar>;
          k = excess m;
          q = m div 2 ^ k;
          r = m mod 2 ^ k;
          q' = (if 2 * r > 2 ^ k \<or> (2 * r = 2 ^ k \<and> odd q) then q + 1 else q)
      in sgn n * int (q' * 2 ^ k))"

text \<open>
  One tensor library on such numbers: every product and every sum is rounded, and a
  sum of several terms is accumulated from the first term to the last. (A library is
  free to accumulate in another order; the examples below use sums of at most two
  terms or numbers on which no rounding happens, where the order makes no
  difference.)
\<close>

definition float32_lib :: "int tensor_lib" where
  "float32_lib =
     \<lparr>lib_dot = (\<lambda>sa a sb b y x.
          foldl (\<lambda>acc k. float32 (acc + float32 (a y k * b k x))) 0 [0..<snd sa]),
      lib_plus = (\<lambda>u v. float32 (u + v)),
      lib_sum_rows = (\<lambda>sa a x. foldl (\<lambda>acc i. float32 (acc + a i x)) 0 [0..<fst sa])\<rparr>"

subsection \<open>Example data\<close>

text \<open>
  The buffers of the worked example: a batch of two rows with three features, a
  weight matrix of two hidden units, a bias, an output gradient of ones, and buffers
  for the results. A buffer initialised from a list holds 0 beyond the list.
\<close>

definition buffer :: "int list \<Rightarrow> nat \<Rightarrow> int" where
  "buffer xs k = (if k < length xs then xs ! k else 0)"

definition example_store :: "int store" where
  "example_store a =
     (if a = 0 then buffer [1, 2, 3, 4, 5, 6]
      else if a = 1 then buffer [1, 0, 0, 0, 1, 0]
      else if a = 2 then buffer [10, 20]
      else if a = 4 then buffer [1, 1, 1, 1]
      else if a = 5 then buffer [100, 100, 100, 100, 100, 100]
      else buffer [])"

definition example_in_data :: "TBlob list" where
  "example_in_data =
     [\<lparr>dptr = 0, tshape = [2, 1, 1, 3]\<rparr>, \<lparr>dptr = 1, tshape = [2, 3]\<rparr>,
      \<lparr>dptr = 2, tshape = [2]\<rparr>]"

definition example_out_data :: "TBlob list" where
  "example_out_data = [\<lparr>dptr = 3, tshape = [2, 1, 1, 2]\<rparr>]"

definition example_out_grad :: "TBlob list" where
  "example_out_grad = [\<lparr>dptr = 4, tshape = [2, 1, 1, 2]\<rparr>]"

definition example_in_grad :: "TBlob list" where
  "example_in_grad =
     [\<lparr>dptr = 0, tshape = [2, 1, 1, 3]\<rparr>, \<lparr>dptr = 5, tshape = [2, 3]\<rparr>,
      \<lparr>dptr = 6, tshape = [2]\<rparr>]"

text \<open>
  A second store, with numbers at the edge of the significand: buffer 0 holds
  \<open>2\<^sup>2\<^sup>4 = 16777216\<close> and \<open>1\<close>, buffer 1 holds two ones.
\<close>

definition large_store :: "int store" where
  "large_store a =
     (if a = 0 then buffer [16777216, 1]
      else if a = 1 then buffer [1, 1]
      else buffer [])"

declare excess.simps [simp del]

lemmas slot_defs = kData_def kWeight_def kBias_def kOut_def

lemmas example_defs = example_store_def example_in_data_def example_out_data_def
  example_out_grad_def example_in_grad_def buffer_def


section \<open>Shape inference\<close>

subsection \<open>Auxiliary facts\<close>

lemma length_3_obtain:
  assumes "length xs = 3"
  obtains a b c where "xs = [a, b, c]"
  using assms by (cases xs; cases "tl xs"; cases "tl (tl xs)"; auto)

lemma length_2_obtain:
  assumes "length xs = 2"
  obtains a b where "xs = [a, b]"
  using assms by (cases xs; cases "tl xs"; auto)

lemma ShapeAssignCheck_Inr:
  "ShapeAssignCheck out shp = Inr w \<Longrightarrow> w = (if shape_known out then out else shp)"
  by (auto simp: ShapeAssignCheck_def shape_known_def split: if_splits)

lemma ShapeAssignCheck_Inl:
  "ShapeAssignCheck out shp = Inl e \<Longrightarrow> e = CheckFailed \<and> shape_known out \<and> out \<noteq> shp"
  by (auto simp: ShapeAssignCheck_def shape_known_def split: if_splits)

lemma InferShape_success_slots:
  assumes "fst (InferShape param in_shape out_shape) = Inr r"
  shows "length in_shape = (if no_bias param = 0 then 3 else 2)"
    and "0 < num_hidden param" and "length (in_shape ! kData) = 4"
  using assms
  by (auto simp: InferShape_def Let_def slot_defs ndim_def split: if_splits sum.splits)

subsection \<open>The inferred shapes\<close>

text \<open>
  C3. With a positive hidden-unit count, the required number of input slots and a
  known data shape \<open>[b, x, y, f]\<close> of rank 4, \<open>InferShape\<close> follows the fill-or-verify
  rule on the weight slot (\<open>[num_hidden, f]\<close>) and, for a layer with bias, on the bias
  slot (\<open>[num_hidden]\<close>): an unknown slot is filled, a known slot must already hold
  that shape, and a known slot holding another shape makes the call fail. When it
  succeeds it returns true and leaves exactly one output shape, the data shape with
  its last extent replaced by the hidden-unit count.
\<close>

theorem InferShape_fill_or_verify:
  assumes "0 < num_hidden param"
    and "length in_shape = (if no_bias param = 0 then 3 else 2)"
    and "in_shape ! kData = [b, x, y, f]"
  shows "InferShape param in_shape out_shape =
     (if shape_known (in_shape ! kWeight) \<and> in_shape ! kWeight \<noteq> [nat (num_hidden param), f]
      then (Inl CheckFailed, in_shape, out_shape)
      else if no_bias param \<noteq> 0
      then (Inr True, [[b, x, y, f], [nat (num_hidden param), f]],
            [[b, x, y, nat (num_hidden param)]])
      else if shape_known (in_shape ! kBias) \<and> in_shape ! kBias \<noteq> [nat (num_hidden param)]
      then (Inl CheckFailed, in_shape[kWeight := [nat (num_hidden param), f]], out_shape)
      else (Inr True, [[b, x, y, f], [nat (num_hidden param), f], [nat (num_hidden param)]],
            [[b, x, y, nat (num_hidden param)]]))"
proof (cases "no_bias param = 0")
  case True
  with assms(2) have "length in_shape = 3" by simp
  then obtain d w bi where in_shape: "in_shape = [d, w, bi]"
    by (rule length_3_obtain)
  with assms(3) have d: "d = [b, x, y, f]" by (simp add: kData_def)
  show ?thesis using True assms(1)
    by (auto simp: in_shape d InferShape_def Let_def slot_defs shape_known_def ndim_def
        ShapeAssignCheck_def Shape1_def Shape2_def)
next
  case False
  with assms(2) have "length in_shape = 2" by simp
  then obtain d w where in_shape: "in_shape = [d, w]"
    by (rule length_2_obtain)
  with assms(3) have d: "d = [b, x, y, f]" by (simp add: kData_def)
  show ?thesis using False assms(1)
    by (auto simp: in_shape d InferShape_def Let_def slot_defs shape_known_def ndim_def
        ShapeAssignCheck_def Shape1_def Shape2_def)
qed

theorem InferShape_fill_or_verify_witness:
  "(0::int) < num_hidden \<lparr>num_hidden = 5, no_bias = 0\<rparr>
   \<and> length [[2, 4, 6, 3], [5, 3], []] = (3::nat)
   \<and> [[2, 4, 6, 3], [5, 3], []] ! kData = [2, 4, 6, 3::nat]
   \<and> InferShape \<lparr>num_hidden = 5, no_bias = 0\<rparr> [[2, 4, 6, 3], [5, 3], []] []
        = (Inr True, [[2, 4, 6, 3], [5, 3], [5]], [[2, 4, 6, 5]])"
proof -
  have h: "(0::int) < num_hidden \<lparr>num_hidden = 5, no_bias = 0\<rparr>" by simp
  have n: "length [[2, 4, 6, 3], [5, 3], []::nat list]
             = (if no_bias \<lparr>num_hidden = 5, no_bias = 0\<rparr> = 0 then 3 else 2)" by simp
  have d: "[[2, 4, 6, 3], [5, 3], []] ! kData = [2, 4, 6, 3::nat]" by (simp add: kData_def)
  from InferShape_fill_or_verify [OF h n d, of "[]"] h d show ?thesis
    by (simp add: slot_defs shape_known_def ndim_def)
qed

text \<open>
  C4. \<open>InferShape\<close> fails whenever the data slot does not hold a known shape of
  exactly four extents (a shape is known when it has extents at all); so a call that
  succeeds had a known data shape of rank 4.
\<close>

theorem InferShape_requires_rank4:
  "(ndim (in_shape ! kData) \<noteq> 4 \<or> \<not> shape_known (in_shape ! kData)
      \<longrightarrow> fst (InferShape param in_shape out_shape) = Inl CheckFailed)
   \<and> (fst (InferShape param in_shape out_shape) = Inr r
      \<longrightarrow> ndim (in_shape ! kData) = 4 \<and> shape_known (in_shape ! kData))"
  by (auto simp: InferShape_def Let_def slot_defs shape_known_def split: if_splits sum.splits)

theorem InferShape_requires_rank4_witness:
  "ndim ([[2, 3], []] ! kData) \<noteq> 4
   \<and> fst (InferShape \<lparr>num_hidden = 5, no_bias = 1\<rparr> [[2, 3], []] []) = Inl CheckFailed
   \<and> \<not> shape_known ([[], []] ! kData)
   \<and> fst (InferShape \<lparr>num_hidden = 5, no_bias = 1\<rparr> [[], []] []) = Inl CheckFailed
   \<and> fst (InferShape \<lparr>num_hidden = 5, no_bias = 1\<rparr> [[2, 1, 1, 3], []] []) = Inr True
   \<and> ndim ([[2, 1, 1, 3], []] ! kData) = 4 \<and> shape_known ([[2, 1, 1, 3], []] ! kData)"
proof -
  have rank: "ndim ([[2, 3], []] ! kData) \<noteq> 4" by (simp add: kData_def ndim_def)
  have unknown: "\<not> shape_known ([[], []] ! kData)"
    by (simp add: kData_def shape_known_def ndim_def)
  have run: "fst (InferShape \<lparr>num_hidden = 5, no_bias = 1\<rparr> [[2, 1, 1, 3], []] []) = Inr True"
    by (simp add: InferShape_def Let_def slot_defs ndim_def ShapeAssignCheck_def
        Shape1_def Shape2_def)
  from InferShape_requires_rank4 [of "[[2, 3], []]" "\<lparr>num_hidden = 5, no_bias = 1\<rparr>" "[]"] rank
  have a: "fst (InferShape \<lparr>num_hidden = 5, no_bias = 1\<rparr> [[2, 3], []] []) = Inl CheckFailed"
    by blast
  from InferShape_requires_rank4 [of "[[], []]" "\<lparr>num_hidden = 5, no_bias = 1\<rparr>" "[]"] unknown
  have b: "fst (InferShape \<lparr>num_hidden = 5, no_bias = 1\<rparr> [[], []] []) = Inl CheckFailed"
    by blast
  from InferShape_requires_rank4
         [of "[[2, 1, 1, 3], []]" "\<lparr>num_hidden = 5, no_bias = 1\<rparr>" "[]" True] run
  have c: "ndim ([[2, 1, 1, 3], []] ! kData) = 4 \<and> shape_known ([[2, 1, 1, 3], []] ! kData)"
    by blast
  from rank unknown run a b c show ?thesis by blast
qed

text \<open>
  C8. \<open>InferShape\<close> is idempotent. After a successful run on a data shape
  \<open>[b, x, y, f]\<close> (in particular \<open>[b, 1, 1, f]\<close>) the input shapes are the data shape,
  the weight shape \<open>[num_hidden, f]\<close> and, for a layer with bias, the bias shape
  \<open>[num_hidden]\<close>, the output shape is \<open>[b, x, y, num_hidden]\<close>, and a second run on
  these vectors succeeds and leaves them as they are.
\<close>

theorem InferShape_idempotent:
  assumes "0 < num_hidden param"
    and "in_shape ! kData = [b, x, y, f]"
    and "InferShape param in_shape out_shape = (Inr r, in_shape', out_shape')"
  shows "in_shape' = [[b, x, y, f], [nat (num_hidden param), f]]
                       @ (if no_bias param = 0 then [[nat (num_hidden param)]] else [])
       \<and> out_shape' = [[b, x, y, nat (num_hidden param)]]
       \<and> InferShape param in_shape' out_shape' = (Inr r, in_shape', out_shape')"
proof (cases "no_bias param = 0")
  case True
  from assms(3) have "length in_shape = 3"
    using InferShape_success_slots(1) [of param in_shape out_shape r] True by simp
  then obtain d w bi where in_shape: "in_shape = [d, w, bi]"
    by (rule length_3_obtain)
  with assms(2) have d: "d = [b, x, y, f]" by (simp add: kData_def)
  show ?thesis using True assms(1,3)
    by (auto simp: in_shape d InferShape_def Let_def slot_defs ndim_def
        ShapeAssignCheck_def Shape1_def Shape2_def split: if_splits)
next
  case False
  from assms(3) have "length in_shape = 2"
    using InferShape_success_slots(1) [of param in_shape out_shape r] False by simp
  then obtain d w where in_shape: "in_shape = [d, w]"
    by (rule length_2_obtain)
  with assms(2) have d: "d = [b, x, y, f]" by (simp add: kData_def)
  show ?thesis using False assms(1,3)
    by (auto simp: in_shape d InferShape_def Let_def slot_defs ndim_def
        ShapeAssignCheck_def Shape1_def Shape2_def split: if_splits)
qed

theorem InferShape_idempotent_witness:
  "(0::int) < num_hidden \<lparr>num_hidden = 5, no_bias = 0\<rparr>
   \<and> [[2, 1, 1, 3], [], []] ! kData = [2, 1, 1, 3::nat]
   \<and> InferShape \<lparr>num_hidden = 5, no_bias = 0\<rparr> [[2, 1, 1, 3], [], []] []
        = (Inr True, [[2, 1, 1, 3], [5, 3], [5]], [[2, 1, 1, 5]])
   \<and> InferShape \<lparr>num_hidden = 5, no_bias = 0\<rparr> [[2, 1, 1, 3], [5, 3], [5]] [[2, 1, 1, 5]]
        = (Inr True, [[2, 1, 1, 3], [5, 3], [5]], [[2, 1, 1, 5]])"
proof -
  have run: "InferShape \<lparr>num_hidden = 5, no_bias = 0\<rparr> [[2, 1, 1, 3], [], []] []
        = (Inr True, [[2, 1, 1, 3], [5, 3], [5]], [[2, 1, 1, 5]])"
    by (simp add: InferShape_def Let_def slot_defs ndim_def ShapeAssignCheck_def
        Shape1_def Shape2_def)
  have h: "(0::int) < num_hidden \<lparr>num_hidden = 5, no_bias = 0\<rparr>" by simp
  have d: "[[2, 1, 1, 3], [], []] ! kData = [2, 1, 1, 3::nat]" by (simp add: kData_def)
  from InferShape_idempotent [OF h d run] run h d show ?thesis by simp
qed

text \<open>
  C10. Whenever \<open>InferShape\<close> returns, it returns true: there is no input on which
  it returns false, so every failure is a failed check and never a return value.
\<close>

theorem InferShape_returns_true:
  "fst (InferShape param in_shape out_shape) \<noteq> Inr False
   \<and> (fst (InferShape param in_shape out_shape) = Inr r \<longrightarrow> r = True)"
  by (auto simp: InferShape_def Let_def split: if_splits sum.splits)

theorem InferShape_returns_true_witness:
  "fst (InferShape \<lparr>num_hidden = 7, no_bias = 0\<rparr> [[4, 1, 1, 9], [], [7]] [[1]]) = Inr True
   \<and> fst (InferShape \<lparr>num_hidden = 7, no_bias = 0\<rparr> [[4, 1, 1, 9], [], [7]] [[1]]) \<noteq> Inr False"
proof -
  have run: "fst (InferShape \<lparr>num_hidden = 7, no_bias = 0\<rparr> [[4, 1, 1, 9], [], [7]] [[1]])
               = Inr True"
    by (simp add: InferShape_def Let_def slot_defs ndim_def ShapeAssignCheck_def
        Shape1_def Shape2_def)
  from InferShape_returns_true
         [of "\<lparr>num_hidden = 7, no_bias = 0\<rparr>" "[[4, 1, 1, 9], [], [7]]" "[[1]]" True] run
  show ?thesis by simp
qed

text \<open>
  C9, as the claim states it, fails: a caller-supplied output shape that differs from
  the derived one does not make \<open>InferShape\<close> fail. The output vector is cleared and
  refilled without being read, so the call below succeeds and replaces \<open>[9, 9, 9, 9]\<close>.
\<close>

theorem InferShape_output_conflict_counterexample:
  "InferShape \<lparr>num_hidden = 5, no_bias = 0\<rparr> [[2, 1, 1, 3], [], []] [[9, 9, 9, 9]]
     = (Inr True, [[2, 1, 1, 3], [5, 3], [5]], [[2, 1, 1, 5]])"
  by (simp add: InferShape_def Let_def slot_defs ndim_def ShapeAssignCheck_def
      Shape1_def Shape2_def)

text \<open>
  C9, amended. \<open>InferShape\<close> keeps the number of input slots and never changes an
  input slot that is known; the only slots it may change are the weight slot and, for
  a layer with bias, the bias slot, so the data slot is never modified. A known weight
  slot that differs from \<open>[num_hidden, f]\<close>, or a known bias slot that differs from
  \<open>[num_hidden]\<close>, makes the call fail. The output vector is not compared with
  anything: a successful call replaces whatever it held by the one derived shape, and
  a failed call leaves it as it was.
\<close>

theorem InferShape_frame:
  assumes "InferShape param in_shape out_shape = (r, in_shape', out_shape')"
  shows "length in_shape' = length in_shape
    \<and> (\<forall>i < length in_shape. shape_known (in_shape ! i) \<longrightarrow> in_shape' ! i = in_shape ! i)
    \<and> (\<forall>i < length in_shape. in_shape' ! i \<noteq> in_shape ! i
           \<longrightarrow> i = kWeight \<or> (i = kBias \<and> no_bias param = 0))
    \<and> (shape_known (in_shape ! kWeight)
         \<and> in_shape ! kWeight \<noteq> Shape2 (nat (num_hidden param)) (in_shape ! kData ! 3)
           \<longrightarrow> r = Inl CheckFailed)
    \<and> (no_bias param = 0 \<and> shape_known (in_shape ! kBias)
         \<and> in_shape ! kBias \<noteq> Shape1 (nat (num_hidden param))
           \<longrightarrow> r = Inl CheckFailed)
    \<and> (r = Inr True \<longrightarrow> out_shape' = [(in_shape ! kData)[3 := nat (num_hidden param)]])
    \<and> (r \<noteq> Inr True \<longrightarrow> r = Inl CheckFailed \<and> out_shape' = out_shape)"
proof -
  have len: "length in_shape' = length in_shape"
    using assms
    by (auto simp: InferShape_def Let_def split: if_splits sum.splits)
  have known: "in_shape' ! i = in_shape ! i"
    if "i < length in_shape" "shape_known (in_shape ! i)" for i
    using assms that
    by (auto simp: InferShape_def Let_def slot_defs nth_list_update
        split: if_splits sum.splits dest!: ShapeAssignCheck_Inr)
  have only: "i = kWeight \<or> (i = kBias \<and> no_bias param = 0)"
    if "i < length in_shape" "in_shape' ! i \<noteq> in_shape ! i" for i
    using assms that
    by (auto simp: InferShape_def Let_def slot_defs nth_list_update
        split: if_splits sum.splits)
  have weight: "r = Inl CheckFailed"
    if "shape_known (in_shape ! kWeight)"
      "in_shape ! kWeight \<noteq> Shape2 (nat (num_hidden param)) (in_shape ! kData ! 3)"
    using assms that
    by (auto simp: InferShape_def Let_def slot_defs ShapeAssignCheck_def shape_known_def
        split: if_splits sum.splits)
  have bias: "r = Inl CheckFailed"
    if "no_bias param = 0" "shape_known (in_shape ! kBias)"
      "in_shape ! kBias \<noteq> Shape1 (nat (num_hidden param))"
    using assms that
    by (auto simp: InferShape_def Let_def slot_defs ShapeAssignCheck_def shape_known_def
        split: if_splits sum.splits)
  have out: "r = Inr True \<longrightarrow> out_shape' = [(in_shape ! kData)[3 := nat (num_hidden param)]]"
    using assms
    by (auto simp: InferShape_def Let_def kData_def split: if_splits sum.splits)
  have fail: "r \<noteq> Inr True \<longrightarrow> r = Inl CheckFailed \<and> out_shape' = out_shape"
    using assms
    by (auto simp: InferShape_def Let_def split: if_splits sum.splits dest!: ShapeAssignCheck_Inl)
  from len known only weight bias out fail show ?thesis by blast
qed

theorem InferShape_frame_witness:
  "InferShape \<lparr>num_hidden = 5, no_bias = 0\<rparr> [[2, 1, 1, 3], [5, 3], []] [[9, 9, 9, 9]]
     = (Inr True, [[2, 1, 1, 3], [5, 3], [5]], [[2, 1, 1, 5]])
   \<and> length [[2, 1, 1, 3], [5, 3], [5::nat]] = length [[2, 1, 1, 3], [5, 3], []::nat list]
   \<and> [[2, 1, 1, 3], [5, 3], [5]] ! kData = [[2, 1, 1, 3], [5, 3], []::nat list] ! kData
   \<and> [[2, 1, 1, 3], [5, 3], [5]] ! kWeight = [[2, 1, 1, 3], [5, 3], []::nat list] ! kWeight
   \<and> [[2, 1, 1, 5]] = [([[2, 1, 1, 3], [5, 3], []] ! kData)[3 := nat 5]]"
proof -
  have run: "InferShape \<lparr>num_hidden = 5, no_bias = 0\<rparr> [[2, 1, 1, 3], [5, 3], []] [[9, 9, 9, 9]]
     = (Inr True, [[2, 1, 1, 3], [5, 3], [5]], [[2, 1, 1, 5]])"
    by (simp add: InferShape_def Let_def slot_defs ndim_def ShapeAssignCheck_def
        Shape1_def Shape2_def)
  from InferShape_frame [OF run] run show ?thesis
    by (simp add: slot_defs)
qed

section \<open>Backward dependencies\<close>

text \<open>
  C7. Given index lists that hold the slots of the layer (an output-gradient list
  with the result slot, an input list with the data and weight slots),
  \<open>DeclareBackwardDependency\<close> returns exactly three entries, in this order: the
  output-gradient index of the result slot, the input index of the data and the input
  index of the weight. The list of forward output indices has no influence on the
  result.
\<close>

theorem DeclareBackwardDependency_entries:
  assumes "kOut < length out_grad" and "kWeight < length in_data"
  shows "DeclareBackwardDependency out_grad in_data out_data
           = Inr [out_grad ! kOut, in_data ! kData, in_data ! kWeight]
       \<and> DeclareBackwardDependency out_grad in_data out_data'
           = DeclareBackwardDependency out_grad in_data out_data"
  using assms by (auto simp: DeclareBackwardDependency_def slot_defs)

theorem DeclareBackwardDependency_entries_witness:
  "kOut < length [40::int] \<and> kWeight < length [10, 11, 12::int]
   \<and> DeclareBackwardDependency [40] [10, 11, 12] [30] = Inr [40, 10, 11]
   \<and> DeclareBackwardDependency [40] [10, 11, 12] [99, 98]
       = DeclareBackwardDependency [40] [10, 11, 12] [30]"
proof -
  have a: "kOut < length [40::int]" by (simp add: kOut_def)
  have b: "kWeight < length [10, 11, 12::int]" by (simp add: kWeight_def)
  from DeclareBackwardDependency_entries [OF a b, of "[30]" "[99, 98]"] a b
  show ?thesis by (simp add: slot_defs)
qed

section \<open>Value and gradient computation\<close>

subsection \<open>Auxiliary facts\<close>

lemma Assign2_eq:
  "Assign2 lib out req e s =
     (if ShapeCheck2 e \<and> shape2 e = (rows2 out, cols2 out)
      then (None, s(dptr2 out := (\<lambda>k. if k < rows2 out * cols2 out
                     then (if req = kAddTo
                           then lib_plus lib (s (dptr2 out) k)
                                  (Eval2 lib s e (k div cols2 out) (k mod cols2 out))
                           else Eval2 lib s e (k div cols2 out) (k mod cols2 out))
                     else s (dptr2 out) k)))
      else (Some ShapeError, s))"
  by (cases req) (auto simp: Assign2_def assign_to2_def plus_to2_def fun_eq_iff)

lemma Assign1_eq:
  "Assign1 lib out req e s =
     (if shape1 e = len1 out
      then (None, s(dptr1 out := (\<lambda>k. if k < len1 out
                     then (if req = kAddTo
                           then lib_plus lib (s (dptr1 out) k) (Eval1 lib s e k)
                           else Eval1 lib s e k)
                     else s (dptr1 out) k)))
      else (Some ShapeError, s))"
  by (cases req) (auto simp: Assign1_def assign_to1_def plus_to1_def fun_eq_iff)

lemma dptr2_FlatTo2D [simp]: "dptr2 (FlatTo2D b) = dptr b"
  by (simp add: FlatTo2D_def split: list.splits)

lemma get2_dptr: "get2 b = Inr t \<Longrightarrow> dptr2 t = dptr b"
  by (auto simp: get2_def split: list.splits)

lemma get1_dptr: "get1 b = Inr t \<Longrightarrow> dptr1 t = dptr b"
  by (auto simp: get1_def split: list.splits)

lemma cell_in_range: "i * n + j < m * n" if "i < m" "j < n" for i j m n :: nat
proof -
  from that have "i * n + j < i * n + n" by simp
  also have "\<dots> = Suc i * n" by simp
  also from that have "\<dots> \<le> m * n" by (intro mult_le_mono1) simp
  finally show ?thesis .
qed

lemma upt_1: "[0..<1] = [0::nat]"
  by simp

lemma upt_2: "[0..<2] = [0, 1::nat]"
  by (simp add: upt_conv_Cons)

lemma upt_3: "[0..<3] = [0, 1, 2::nat]"
  by (simp add: upt_conv_Cons)

lemma Eval2_tensor_fun:
  "Eval2 lib s (tensor t) = cells s (dptr2 t) (cols2 t)"
  by (simp add: fun_eq_iff cells_def)

lemma Eval2_Tr_tensor_fun:
  "Eval2 lib s (Tr (tensor t)) = cellsT s (dptr2 t) (cols2 t)"
  by (simp add: fun_eq_iff cellsT_def)

lemma cells_upd_other [simp]: "p \<noteq> q \<Longrightarrow> cells (s(q := v)) p n = cells s p n"
  by (simp add: fun_eq_iff cells_def)

lemma cellsT_upd_other [simp]: "p \<noteq> q \<Longrightarrow> cellsT (s(q := v)) p n = cellsT s p n"
  by (simp add: fun_eq_iff cellsT_def)

lemma Forward_store:
  assumes "length in_data = (if no_bias param = 0 then 3 else 2)"
    and "length out_data = 1"
    and "kOut < length req" and "req ! kOut = kWriteTo"
    and "FlatTo2D (in_data ! kData) = \<lparr>dptr2 = d, rows2 = b, cols2 = f\<rparr>"
    and "in_data ! kWeight = \<lparr>dptr = w, tshape = [h, f]\<rparr>"
    and "no_bias param = 0 \<Longrightarrow> in_data ! kBias = \<lparr>dptr = bi, tshape = [h]\<rparr>"
    and "FlatTo2D (out_data ! kOut) = \<lparr>dptr2 = out, rows2 = b, cols2 = h\<rparr>"
    and "no_bias param = 0 \<Longrightarrow> out \<noteq> bi"
  shows "Forward lib param in_data req out_data s =
     (None, s(out := (\<lambda>k. if k < b * h
                then (if no_bias param = 0
                      then lib_plus lib
                             (lib_dot lib (b, f) (cells s d f) (f, h) (cellsT s w f)
                                (k div h) (k mod h))
                             (s bi (k mod h))
                      else lib_dot lib (b, f) (cells s d f) (f, h) (cellsT s w f)
                             (k div h) (k mod h))
                else s out k)))"
  using assms
  by (auto simp: Forward_def Let_def get2_def get1_def assign_to2_def plus_to2_def
      Eval2_tensor_fun Eval2_Tr_tensor_fun fun_eq_iff)

lemma cells_fun: "(\<lambda>i j. s p (i * n + j)) = cells s p n"
  by (simp add: fun_eq_iff cells_def)

lemma Backward_store:
  assumes "length out_grad = 1"
    and "length in_data = (if no_bias param = 0 then 3 else 2)"
    and "length in_grad = (if no_bias param = 0 then 3 else 2)"
    and "length req = (if no_bias param = 0 then 3 else 2)"
    and "req ! kWeight \<noteq> kWriteInplace"
    and "FlatTo2D (in_data ! kData) = \<lparr>dptr2 = d, rows2 = b, cols2 = f\<rparr>"
    and "in_data ! kWeight = \<lparr>dptr = w, tshape = [h, f]\<rparr>"
    and "FlatTo2D (out_grad ! kOut) = \<lparr>dptr2 = g, rows2 = b, cols2 = h\<rparr>"
    and "in_grad ! kWeight = \<lparr>dptr = gw, tshape = [h, f]\<rparr>"
    and "no_bias param = 0 \<Longrightarrow> in_grad ! kBias = \<lparr>dptr = gb, tshape = [h]\<rparr>"
    and "FlatTo2D (in_grad ! kData) = \<lparr>dptr2 = gd, rows2 = b, cols2 = f\<rparr>"
    and "gw \<noteq> w" and "gw \<noteq> g" and "gw \<noteq> gd"
    and "no_bias param = 0 \<Longrightarrow> gb \<noteq> w \<and> gb \<noteq> g \<and> gb \<noteq> gw \<and> gb \<noteq> gd"
  shows "Backward lib param out_grad in_data out_data req in_grad s =
     (None, \<lambda>a k.
        if a = gd \<and> k < b * f
        then (if req ! kData = kAddTo
              then lib_plus lib (s gd k)
                     (lib_dot lib (b, h) (cells s g h) (h, f) (cells s w f) (k div f) (k mod f))
              else lib_dot lib (b, h) (cells s g h) (h, f) (cells s w f) (k div f) (k mod f))
        else if no_bias param = 0 \<and> a = gb \<and> k < h
        then (if req ! kBias = kAddTo
              then lib_plus lib (s gb k) (lib_sum_rows lib (b, h) (cells s g h) k)
              else lib_sum_rows lib (b, h) (cells s g h) k)
        else if a = gw \<and> k < h * f
        then (if req ! kWeight = kAddTo
              then lib_plus lib (s gw k)
                     (lib_dot lib (h, b) (cellsT s g h) (b, f) (cells s d f) (k div f) (k mod f))
              else lib_dot lib (h, b) (cellsT s g h) (b, f) (cells s d f) (k div f) (k mod f))
        else s a k)"
  using assms
  by (auto simp: Backward_def Let_def get2_def get1_def Assign2_eq Assign1_eq
      Eval2_tensor_fun Eval2_Tr_tensor_fun cells_fun fun_eq_iff)

lemma excess_small: "m < 2 ^ 24 \<Longrightarrow> excess m = 0"
  by (subst excess.simps) simp

lemma float32_small: "\<bar>n\<bar> < 2 ^ 24 \<Longrightarrow> float32 n = n"
proof -
  assume "\<bar>n\<bar> < 2 ^ 24"
  then have "nat \<bar>n\<bar> < 2 ^ 24" by (simp add: nat_less_iff)
  then have e: "excess (nat \<bar>n\<bar>) = 0" by (rule excess_small)
  show ?thesis by (simp add: float32_def Let_def e mult_sgn_abs)
qed

lemma float32_edge: "float32 16777216 = 16777216" "float32 16777217 = 16777216"
proof -
  have "excess 8388608 = 0" by (rule excess_small) simp
  then have e: "excess 16777216 = 1" "excess 16777217 = 1"
    by (subst excess.simps, simp)+
  show "float32 16777216 = 16777216" "float32 16777217 = 16777216"
    by (simp_all add: float32_def Let_def e)
qed

lemma float32_lib_plus: "lib_plus float32_lib u v = float32 (u + v)"
  by (simp add: float32_lib_def)

lemma float32_lib_dot_2:
  "lib_dot float32_lib (r, 2) a sb b y x
     = float32 (float32 (float32 (a y 0 * b 0 x)) + float32 (a y 1 * b 1 x))"
  by (simp add: float32_lib_def upt_2)

lemma float32_lib_dot_3:
  "lib_dot float32_lib (r, 3) a sb b y x
     = float32 (float32 (float32 (float32 (a y 0 * b 0 x)) + float32 (a y 1 * b 1 x))
                + float32 (a y 2 * b 2 x))"
  by (simp add: float32_lib_def upt_3)

lemma float32_lib_sum_rows_2:
  "lib_sum_rows float32_lib (2, c) a x = float32 (float32 (a 0 x) + a 1 x)"
  by (simp add: float32_lib_def upt_2)

lemma reads_only_return: "reads_only A (\<lambda>s. (r, s))"
  by (simp add: reads_only_def)

lemma reads_only_if:
  "(c \<Longrightarrow> reads_only A F) \<Longrightarrow> (\<not> c \<Longrightarrow> reads_only A G)
     \<Longrightarrow> reads_only A (\<lambda>s. if c then F s else G s)"
  by (simp add: reads_only_def)

lemma reads_only_case_sum:
  "(\<And>e. x = Inl e \<Longrightarrow> reads_only A (F e)) \<Longrightarrow> (\<And>v. x = Inr v \<Longrightarrow> reads_only A (G v))
     \<Longrightarrow> reads_only A (\<lambda>s. case x of Inl e \<Rightarrow> F e s | Inr v \<Rightarrow> G v s)"
  by (cases x) simp_all

lemma reads_only_seq:
  fixes F G :: "'a store \<Rightarrow> error option \<times> 'a store"
  assumes "reads_only A F" and "reads_only A G"
  shows "reads_only A (\<lambda>s. case F s of (Some e, t) \<Rightarrow> (Some e, t) | (None, t) \<Rightarrow> G t)"
  unfolding reads_only_def
proof (intro allI impI)
  fix s1 s2 :: "'a store" assume "agree_on A s1 s2"
  with assms(1) have f: "fst (F s1) = fst (F s2)" and a: "agree_on A (snd (F s1)) (snd (F s2))"
    by (simp_all add: reads_only_def)
  from assms(2) a have g: "fst (G (snd (F s1))) = fst (G (snd (F s2)))"
    "agree_on A (snd (G (snd (F s1)))) (snd (G (snd (F s2))))"
    by (simp_all add: reads_only_def)
  show "fst (case F s1 of (Some e, t) \<Rightarrow> (Some e, t) | (None, t) \<Rightarrow> G t)
          = fst (case F s2 of (Some e, t) \<Rightarrow> (Some e, t) | (None, t) \<Rightarrow> G t)
      \<and> agree_on A (snd (case F s1 of (Some e, t) \<Rightarrow> (Some e, t) | (None, t) \<Rightarrow> G t))
                     (snd (case F s2 of (Some e, t) \<Rightarrow> (Some e, t) | (None, t) \<Rightarrow> G t))"
    using f a g by (cases "F s1"; cases "F s2"; cases "fst (F s1)") auto
qed

lemma reads_only_Assign2:
  assumes "dptr2 out \<in> A"
    and "\<And>s1 s2. agree_on A s1 s2 \<Longrightarrow> Eval2 lib s1 e = Eval2 lib s2 e"
  shows "reads_only A (Assign2 lib out req e)"
  unfolding reads_only_def
proof (intro allI impI)
  fix s1 s2 :: "'a store" assume a: "agree_on A s1 s2"
  from assms(2) [OF a] have e: "Eval2 lib s1 e y x = Eval2 lib s2 e y x" for y x by simp
  from a assms(1) have o: "s1 (dptr2 out) k = s2 (dptr2 out) k" for k
    by (simp add: agree_on_def)
  show "fst (Assign2 lib out req e s1) = fst (Assign2 lib out req e s2)
      \<and> agree_on A (snd (Assign2 lib out req e s1)) (snd (Assign2 lib out req e s2))"
    using a by (simp add: Assign2_eq agree_on_def e o cong: if_cong)
qed

lemma reads_only_Assign1:
  assumes "dptr1 out \<in> A"
    and "\<And>s1 s2. agree_on A s1 s2 \<Longrightarrow> Eval1 lib s1 e = Eval1 lib s2 e"
  shows "reads_only A (Assign1 lib out req e)"
  unfolding reads_only_def
proof (intro allI impI)
  fix s1 s2 :: "'a store" assume a: "agree_on A s1 s2"
  from assms(2) [OF a] have e: "Eval1 lib s1 e x = Eval1 lib s2 e x" for x by simp
  from a assms(1) have o: "s1 (dptr1 out) k = s2 (dptr1 out) k" for k
    by (simp add: agree_on_def)
  show "fst (Assign1 lib out req e s1) = fst (Assign1 lib out req e s2)
      \<and> agree_on A (snd (Assign1 lib out req e s1)) (snd (Assign1 lib out req e s2))"
    using a by (simp add: Assign1_eq agree_on_def e o cong: if_cong)
qed

lemma cells_agree:
  "agree_on A s1 s2 \<Longrightarrow> p \<in> A \<Longrightarrow> cells s1 p n = cells s2 p n"
  "agree_on A s1 s2 \<Longrightarrow> p \<in> A \<Longrightarrow> cellsT s1 p n = cellsT s2 p n"
  by (simp_all add: agree_on_def cells_def cellsT_def fun_eq_iff)

lemma Eval2_dot_agree:
  assumes "agree_on A s1 s2" and "dptr2 x \<in> A" and "dptr2 y \<in> A"
  shows "Eval2 lib s1 (dot (tensor x) (tensor y)) = Eval2 lib s2 (dot (tensor x) (tensor y))"
    and "Eval2 lib s1 (dot (Tr (tensor x)) (tensor y))
           = Eval2 lib s2 (dot (Tr (tensor x)) (tensor y))"
  using assms
  by (simp_all add: fun_eq_iff Eval2_tensor_fun Eval2_Tr_tensor_fun cells_fun
      cells_agree [of A s1 s2])

lemma Eval1_sum_rows_agree:
  assumes "agree_on A s1 s2" and "dptr2 x \<in> A"
  shows "Eval1 lib s1 (sum_rows x) = Eval1 lib s2 (sum_rows x)"
  using assms by (simp add: fun_eq_iff cells_fun cells_agree [of A s1 s2])

lemma Backward_reads_only:
  "reads_only (dptr ` (set out_grad \<union> set in_data \<union> set in_grad))
     (Backward lib param out_grad in_data out_data req in_grad)"
proof (cases "length out_grad = 1 \<and> length in_data = (if no_bias param = 0 then 3 else 2)
               \<and> length in_grad = (if no_bias param = 0 then 3 else 2)")
  case False
  then have "Backward lib param out_grad in_data out_data req in_grad
               = (\<lambda>s. (Some CheckFailed, s))"
    by (auto simp: Backward_def fun_eq_iff)
  then show ?thesis by (simp add: reads_only_return)
next
  case True
  let ?A = "dptr ` (set out_grad \<union> set in_data \<union> set in_grad)"
  from True have og: "dptr (out_grad ! kOut) \<in> ?A"
    and d: "dptr (in_data ! kData) \<in> ?A" and w: "dptr (in_data ! kWeight) \<in> ?A"
    and gd: "dptr (in_grad ! kData) \<in> ?A" and gw: "dptr (in_grad ! kWeight) \<in> ?A"
    and gb: "no_bias param = 0 \<Longrightarrow> dptr (in_grad ! kBias) \<in> ?A"
    by (auto simp: slot_defs split: if_splits)
  have "reads_only ?A (\<lambda>s. Backward lib param out_grad in_data out_data req in_grad s)"
    unfolding Backward_def Let_def
    apply (intro reads_only_if reads_only_return reads_only_case_sum reads_only_seq
        reads_only_Assign2 reads_only_Assign1 Eval2_dot_agree Eval1_sum_rows_agree)
    apply (auto simp: og d w gd gw gb dest: get2_dptr get1_dptr)
    done
  then show ?thesis .
qed

lemma Backward_out_data:
  "Backward lib param out_grad in_data out_data1 req in_grad
     = Backward lib param out_grad in_data out_data2 req in_grad"
  by (simp add: Backward_def fun_eq_iff)

subsection \<open>Forward\<close>

text \<open>
  C1, as the claim states it, fails, for three reasons. The slot counts and the write
  mode Overwrite do not make a call well formed: in the first call below the output
  blob has the shape \<open>[2, 1, 1, 5]\<close> where the product is a \<open>2 \<times> 2\<close> matrix, the
  assignment is refused and nothing is written; in the second call the output blob
  shares its buffer with the bias, the product \<open>1 \<cdot> 1\<close> overwrites the bias before it
  is added, and the output cell ends as \<open>2\<close>, not as \<open>1 \<cdot> 1 + 10 = 11\<close>. And the
  elements are floating-point numbers: in the third call the data row is
  \<open>(16777216, 1)\<close> and the weight row \<open>(1, 1)\<close>; both products are exact, their sum
  \<open>16777217\<close> has no single-precision representation, and in whatever order the two
  terms are added the output cell ends as \<open>16777216\<close>.
\<close>

theorem Forward_unfit_tensors_counterexample:
  "Forward float32_lib \<lparr>num_hidden = 2, no_bias = 0\<rparr> example_in_data [kWriteTo]
       [\<lparr>dptr = 3, tshape = [2, 1, 1, 5]\<rparr>] example_store
     = (Some ShapeError, example_store)
   \<and> fst (Forward float32_lib \<lparr>num_hidden = 1, no_bias = 0\<rparr>
            [\<lparr>dptr = 0, tshape = [1, 1]\<rparr>, \<lparr>dptr = 1, tshape = [1, 1]\<rparr>,
             \<lparr>dptr = 2, tshape = [1]\<rparr>]
            [kWriteTo] [\<lparr>dptr = 2, tshape = [1, 1]\<rparr>] example_store) = None
   \<and> snd (Forward float32_lib \<lparr>num_hidden = 1, no_bias = 0\<rparr>
            [\<lparr>dptr = 0, tshape = [1, 1]\<rparr>, \<lparr>dptr = 1, tshape = [1, 1]\<rparr>,
             \<lparr>dptr = 2, tshape = [1]\<rparr>]
            [kWriteTo] [\<lparr>dptr = 2, tshape = [1, 1]\<rparr>] example_store) 2 0 = 2
   \<and> example_store 0 0 * example_store 1 0 + example_store 2 0 = 11
   \<and> fst (Forward float32_lib \<lparr>num_hidden = 1, no_bias = 1\<rparr>
            [\<lparr>dptr = 0, tshape = [1, 2]\<rparr>, \<lparr>dptr = 1, tshape = [1, 2]\<rparr>]
            [kWriteTo] [\<lparr>dptr = 3, tshape = [1, 1]\<rparr>] large_store) = None
   \<and> snd (Forward float32_lib \<lparr>num_hidden = 1, no_bias = 1\<rparr>
            [\<lparr>dptr = 0, tshape = [1, 2]\<rparr>, \<lparr>dptr = 1, tshape = [1, 2]\<rparr>]
            [kWriteTo] [\<lparr>dptr = 3, tshape = [1, 1]\<rparr>] large_store) 3 0 = 16777216
   \<and> large_store 0 0 * large_store 1 0 + large_store 0 1 * large_store 1 1 = 16777217"
  by (simp add: Forward_def Let_def slot_defs FlatTo2D_def get2_def get1_def
      assign_to2_def plus_to2_def example_defs large_store_def float32_lib_def
      upt_1 upt_2 float32_small float32_edge)

text \<open>
  C1, amended. Take any configuration and a call of \<open>Forward\<close> with three inputs for
  a layer with bias and two otherwise, exactly one output and the write mode
  Overwrite for it, on tensors that fit together: the data viewed as a matrix
  \<open>[b, f]\<close>, a weight matrix \<open>[h, f]\<close>, a bias vector \<open>[h]\<close>, an output viewed as
  \<open>[b, h]\<close> whose buffer is none of the input buffers. The call returns normally.
  Every cell \<open>(i, j)\<close> of the output buffer holds the cell \<open>(i, j)\<close> of the product
  \<open>data \<cdot> weight\<^sup>T\<close> as the tensor library computes it on the elements, and for a
  layer with bias the sum the library forms of that cell and \<open>bias j\<close>; every other
  cell of the store is as before. Where the library's product and sum are exact on
  these operands (\<open>val\<close> reads an element as a real number), the cell is the
  real-number value \<open>(\<Sum>c<f. data (i, c) \<cdot> weight (j, c)) + bias j\<close>.
\<close>

theorem Forward_writes_affine_output:
  fixes val :: "'a \<Rightarrow> real"
  assumes "length in_data = (if no_bias param = 0 then 3 else 2)"
    and "length out_data = 1"
    and "kOut < length req" and "req ! kOut = kWriteTo"
    and "FlatTo2D (in_data ! kData) = \<lparr>dptr2 = d, rows2 = b, cols2 = f\<rparr>"
    and "in_data ! kWeight = \<lparr>dptr = w, tshape = [h, f]\<rparr>"
    and "no_bias param = 0 \<Longrightarrow> in_data ! kBias = \<lparr>dptr = bi, tshape = [h]\<rparr>"
    and "FlatTo2D (out_data ! kOut) = \<lparr>dptr2 = out, rows2 = b, cols2 = h\<rparr>"
    and "out \<noteq> d" and "out \<noteq> w" and "no_bias param = 0 \<Longrightarrow> out \<noteq> bi"
  shows "fst (Forward lib param in_data req out_data s) = None
     \<and> (\<forall>i<b. \<forall>j<h. snd (Forward lib param in_data req out_data s) out (i * h + j)
            = (if no_bias param = 0
               then lib_plus lib
                      (lib_dot lib (b, f) (cells s d f) (f, h) (cellsT s w f) i j) (s bi j)
               else lib_dot lib (b, f) (cells s d f) (f, h) (cellsT s w f) i j))
     \<and> (\<forall>a k. a \<noteq> out \<or> b * h \<le> k
            \<longrightarrow> snd (Forward lib param in_data req out_data s) a k = s a k)
     \<and> (\<forall>i<b. \<forall>j<h.
           val (lib_dot lib (b, f) (cells s d f) (f, h) (cellsT s w f) i j)
             = (\<Sum>c<f. val (s d (i * f + c)) * val (s w (j * f + c)))
           \<and> (no_bias param = 0 \<longrightarrow>
                val (lib_plus lib
                       (lib_dot lib (b, f) (cells s d f) (f, h) (cellsT s w f) i j) (s bi j))
                  = val (lib_dot lib (b, f) (cells s d f) (f, h) (cellsT s w f) i j)
                    + val (s bi j))
           \<longrightarrow> val (snd (Forward lib param in_data req out_data s) out (i * h + j))
                 = (\<Sum>c<f. val (s d (i * f + c)) * val (s w (j * f + c)))
                   + (if no_bias param = 0 then val (s bi j) else 0))"
proof -
  note eq = Forward_store [OF assms(1-8) assms(11), of lib s]
  have cell: "snd (Forward lib param in_data req out_data s) out (i * h + j)
            = (if no_bias param = 0
               then lib_plus lib
                      (lib_dot lib (b, f) (cells s d f) (f, h) (cellsT s w f) i j) (s bi j)
               else lib_dot lib (b, f) (cells s d f) (f, h) (cellsT s w f) i j)"
    if "i < b" "j < h" for i j
    using that by (simp add: eq cell_in_range)
  have frame: "snd (Forward lib param in_data req out_data s) a k = s a k"
    if "a \<noteq> out \<or> b * h \<le> k" for a k
    using that by (auto simp: eq)
  have ok: "fst (Forward lib param in_data req out_data s) = None"
    by (simp add: eq)
  from ok cell frame show ?thesis by simp
qed

theorem Forward_writes_affine_output_witness:
  "length example_in_data = 3 \<and> length example_out_data = 1
   \<and> [kWriteTo] ! kOut = kWriteTo
   \<and> FlatTo2D (example_in_data ! kData) = \<lparr>dptr2 = 0, rows2 = 2, cols2 = 3\<rparr>
   \<and> FlatTo2D (example_out_data ! kOut) = \<lparr>dptr2 = 3, rows2 = 2, cols2 = 2\<rparr>
   \<and> fst (Forward float32_lib \<lparr>num_hidden = 2, no_bias = 0\<rparr> example_in_data [kWriteTo]
            example_out_data example_store) = None
   \<and> map (snd (Forward float32_lib \<lparr>num_hidden = 2, no_bias = 0\<rparr> example_in_data [kWriteTo]
                 example_out_data example_store) 3) [0, 1, 2, 3] = [11, 22, 14, 25]
   \<and> snd (Forward float32_lib \<lparr>num_hidden = 2, no_bias = 0\<rparr> example_in_data [kWriteTo]
            example_out_data example_store) 2 1 = 20
   \<and> real_of_int (snd (Forward float32_lib \<lparr>num_hidden = 2, no_bias = 0\<rparr> example_in_data
            [kWriteTo] example_out_data example_store) 3 3)
       = (\<Sum>c<3. real_of_int (example_store 0 (3 + c)) * real_of_int (example_store 1 (3 + c)))
         + real_of_int (example_store 2 1)"
proof -
  let ?p = "\<lparr>num_hidden = 2, no_bias = 0\<rparr>"
  let ?s' = "snd (Forward float32_lib ?p example_in_data [kWriteTo] example_out_data
                    example_store)"
  have 1: "length example_in_data = (if no_bias ?p = 0 then 3 else 2)"
    by (simp add: example_defs)
  have 2: "length example_out_data = 1" by (simp add: example_defs)
  have 3: "kOut < length [kWriteTo]" by (simp add: kOut_def)
  have 4: "[kWriteTo] ! kOut = kWriteTo" by (simp add: kOut_def)
  have 5: "FlatTo2D (example_in_data ! kData) = \<lparr>dptr2 = 0, rows2 = 2, cols2 = 3\<rparr>"
    by (simp add: example_defs slot_defs FlatTo2D_def)
  have 6: "example_in_data ! kWeight = \<lparr>dptr = 1, tshape = [2, 3]\<rparr>"
    by (simp add: example_defs slot_defs)
  have 7: "no_bias ?p = 0 \<Longrightarrow> example_in_data ! kBias = \<lparr>dptr = 2, tshape = [2]\<rparr>"
    by (simp add: example_defs slot_defs)
  have 8: "FlatTo2D (example_out_data ! kOut) = \<lparr>dptr2 = 3, rows2 = 2, cols2 = 2\<rparr>"
    by (simp add: example_defs slot_defs FlatTo2D_def)
  have 9: "(3::nat) \<noteq> 0" "(3::nat) \<noteq> 1" "no_bias ?p = 0 \<Longrightarrow> (3::nat) \<noteq> 2" by simp_all
  note T = Forward_writes_affine_output [OF 1 2 3 4 5 6 7 8 9,
      of float32_lib example_store real_of_int]
  note ev = float32_lib_dot_3 cells_def cellsT_def float32_small
    example_store_def buffer_def
  have bias: "example_store 2 0 = 10" "example_store 2 1 = 20"
    by (simp_all add: example_store_def buffer_def)
  from T have ok: "fst (Forward float32_lib ?p example_in_data [kWriteTo] example_out_data
                          example_store) = None"
    by simp
  from T have cells: "\<And>i j. i < 2 \<Longrightarrow> j < 2 \<Longrightarrow> ?s' 3 (i * 2 + j)
        = lib_plus float32_lib
            (lib_dot float32_lib (2, 3) (cells example_store 0 3) (3, 2)
               (cellsT example_store 1 3) i j) (example_store 2 j)"
    by simp
  from T have frame: "?s' 2 1 = example_store 2 1"
    by simp
  have c0: "?s' 3 0 = 11" using cells [of 0 0] by (simp add: ev float32_lib_plus)
  have c1: "?s' 3 1 = 22" using cells [of 0 1] by (simp add: ev float32_lib_plus)
  have c2: "?s' 3 2 = 14" using cells [of 1 0] by (simp add: ev float32_lib_plus)
  have c3: "?s' 3 3 = 25" using cells [of 1 1] by (simp add: ev float32_lib_plus)
  have three: "{..<3::nat} = {0, 1, 2}" by auto
  from T have exact_cell: "\<And>i j. i < 2 \<Longrightarrow> j < 2 \<Longrightarrow>
      real_of_int (lib_dot float32_lib (2, 3) (cells example_store 0 3) (3, 2)
                     (cellsT example_store 1 3) i j)
        = (\<Sum>c<3. real_of_int (example_store 0 (i * 3 + c))
                    * real_of_int (example_store 1 (j * 3 + c)))
      \<and> real_of_int (lib_plus float32_lib
                       (lib_dot float32_lib (2, 3) (cells example_store 0 3) (3, 2)
                          (cellsT example_store 1 3) i j) (example_store 2 j))
        = real_of_int (lib_dot float32_lib (2, 3) (cells example_store 0 3) (3, 2)
                         (cellsT example_store 1 3) i j)
          + real_of_int (example_store 2 j)
      \<Longrightarrow> real_of_int (?s' 3 (i * 2 + j))
            = (\<Sum>c<3. real_of_int (example_store 0 (i * 3 + c))
                        * real_of_int (example_store 1 (j * 3 + c)))
              + real_of_int (example_store 2 j)"
    by simp
  have exact: "real_of_int (?s' 3 3)
       = (\<Sum>c<3. real_of_int (example_store 0 (3 + c)) * real_of_int (example_store 1 (3 + c)))
         + real_of_int (example_store 2 1)"
    using exact_cell [of 1 1] by (simp add: ev float32_lib_plus three)
  from 1 2 4 5 8 ok c0 c1 c2 c3 frame bias exact show ?thesis by simp
qed

subsection \<open>Backward\<close>

text \<open>
  C2, as the claim states it, fails, for three reasons. The slot counts and a write
  mode of the weight gradient other than WriteInPlace do not make a call well formed:
  in the first call below the blob of the weight gradient has the shape \<open>[3, 3]\<close>
  where the gradient is a \<open>2 \<times> 3\<close> matrix, the assignment is refused and nothing is
  written; in the second call the weight gradient shares its buffer with the weight
  under the write mode Overwrite, the weight gradient \<open>10 \<cdot> 1\<close> replaces the weight
  before the data gradient is computed, which ends as \<open>10 \<cdot> 10 = 100\<close>, not as
  \<open>outputGradient \<cdot> weight = 10 \<cdot> 1\<close>. And the elements are floating-point numbers:
  in the third call the output gradient is a column of two ones and the data the
  column \<open>(16777216, 1)\<close>; the weight gradient \<open>1 \<cdot> 16777216 + 1 \<cdot> 1 = 16777217\<close> has no
  single-precision representation and the cell ends as \<open>16777216\<close>.
\<close>

theorem Backward_unfit_tensors_counterexample:
  "Backward float32_lib \<lparr>num_hidden = 2, no_bias = 0\<rparr> example_out_grad example_in_data
       example_out_data [kWriteTo, kWriteTo, kWriteTo]
       [\<lparr>dptr = 7, tshape = [2, 1, 1, 3]\<rparr>, \<lparr>dptr = 5, tshape = [3, 3]\<rparr>,
        \<lparr>dptr = 6, tshape = [2]\<rparr>] example_store
     = (Some ShapeError, example_store)
   \<and> fst (Backward float32_lib \<lparr>num_hidden = 1, no_bias = 1\<rparr> [\<lparr>dptr = 2, tshape = [1, 1]\<rparr>]
            [\<lparr>dptr = 0, tshape = [1, 1]\<rparr>, \<lparr>dptr = 1, tshape = [1, 1]\<rparr>] []
            [kWriteTo, kWriteTo]
            [\<lparr>dptr = 6, tshape = [1, 1]\<rparr>, \<lparr>dptr = 1, tshape = [1, 1]\<rparr>]
            example_store) = None
   \<and> snd (Backward float32_lib \<lparr>num_hidden = 1, no_bias = 1\<rparr> [\<lparr>dptr = 2, tshape = [1, 1]\<rparr>]
            [\<lparr>dptr = 0, tshape = [1, 1]\<rparr>, \<lparr>dptr = 1, tshape = [1, 1]\<rparr>] []
            [kWriteTo, kWriteTo]
            [\<lparr>dptr = 6, tshape = [1, 1]\<rparr>, \<lparr>dptr = 1, tshape = [1, 1]\<rparr>]
            example_store) 6 0 = 100
   \<and> example_store 2 0 * example_store 1 0 = 10
   \<and> fst (Backward float32_lib \<lparr>num_hidden = 1, no_bias = 1\<rparr> [\<lparr>dptr = 1, tshape = [2, 1]\<rparr>]
            [\<lparr>dptr = 0, tshape = [2, 1]\<rparr>, \<lparr>dptr = 2, tshape = [1, 1]\<rparr>] []
            [kWriteTo, kWriteTo]
            [\<lparr>dptr = 5, tshape = [2, 1]\<rparr>, \<lparr>dptr = 6, tshape = [1, 1]\<rparr>]
            large_store) = None
   \<and> snd (Backward float32_lib \<lparr>num_hidden = 1, no_bias = 1\<rparr> [\<lparr>dptr = 1, tshape = [2, 1]\<rparr>]
            [\<lparr>dptr = 0, tshape = [2, 1]\<rparr>, \<lparr>dptr = 2, tshape = [1, 1]\<rparr>] []
            [kWriteTo, kWriteTo]
            [\<lparr>dptr = 5, tshape = [2, 1]\<rparr>, \<lparr>dptr = 6, tshape = [1, 1]\<rparr>]
            large_store) 6 0 = 16777216
   \<and> large_store 1 0 * large_store 0 0 + large_store 1 1 * large_store 0 1 = 16777217"
  by (simp add: Backward_def Let_def slot_defs FlatTo2D_def get2_def get1_def
      Assign2_def Assign1_def assign_to2_def plus_to2_def assign_to1_def plus_to1_def
      example_defs large_store_def float32_lib_def upt_1 upt_2 float32_small float32_edge)

text \<open>
  C2, amended. Take a call of \<open>Backward\<close> with one output gradient, with input values,
  input gradients and write modes of length three for a layer with bias and two
  otherwise, and a write mode of the weight gradient other than WriteInPlace, on
  tensors that fit together: data \<open>[b, f]\<close>, weight \<open>[h, f]\<close>, output gradient
  \<open>[b, h]\<close>, each gradient blob of the shape of its value. The gradient buffers are
  distinct from one another, and none of them is a buffer that the statement writing
  it or a later statement reads: the weight gradient is not the buffer of the output
  gradient, the data or the weight; the bias gradient and the data gradient are not
  the buffer of the output gradient or the weight. (So the data gradient, or the bias
  gradient, may share the buffer of the data.) The call returns normally and leaves
  in the weight gradient the product \<open>outputGradient\<^sup>T \<cdot> data\<close>, in the bias gradient
  (only for a layer with bias) the sum of the output gradient over its rows, and in
  the data gradient the product \<open>outputGradient \<cdot> weight\<close>, each as the tensor library
  computes it on the elements; under AccumulateAdd a cell holds the sum the library
  forms of its old content and the new value, under the other modes the new value.
  Every other cell of the store is as before. Where the library's products and sums
  are exact on these operands, the cells are the real-number values of these
  formulas.
\<close>

theorem Backward_writes_gradients:
  fixes val :: "'a \<Rightarrow> real"
  assumes "length out_grad = 1"
    and "length in_data = (if no_bias param = 0 then 3 else 2)"
    and "length in_grad = (if no_bias param = 0 then 3 else 2)"
    and "length req = (if no_bias param = 0 then 3 else 2)"
    and "req ! kWeight \<noteq> kWriteInplace"
    and "FlatTo2D (in_data ! kData) = \<lparr>dptr2 = d, rows2 = b, cols2 = f\<rparr>"
    and "in_data ! kWeight = \<lparr>dptr = w, tshape = [h, f]\<rparr>"
    and "FlatTo2D (out_grad ! kOut) = \<lparr>dptr2 = g, rows2 = b, cols2 = h\<rparr>"
    and "in_grad ! kWeight = \<lparr>dptr = gw, tshape = [h, f]\<rparr>"
    and "no_bias param = 0 \<Longrightarrow> in_grad ! kBias = \<lparr>dptr = gb, tshape = [h]\<rparr>"
    and "FlatTo2D (in_grad ! kData) = \<lparr>dptr2 = gd, rows2 = b, cols2 = f\<rparr>"
    and "gw \<noteq> w" and "gw \<noteq> g" and "gw \<noteq> gd"
    and "no_bias param = 0 \<Longrightarrow> gb \<noteq> w \<and> gb \<noteq> g \<and> gb \<noteq> gw \<and> gb \<noteq> gd"
    and "gw \<noteq> d" and "gd \<noteq> w" and "gd \<noteq> g"
  shows "fst (Backward lib param out_grad in_data out_data req in_grad s) = None
     \<and> (\<forall>j<h. \<forall>c<f. snd (Backward lib param out_grad in_data out_data req in_grad s) gw (j * f + c)
            = (if req ! kWeight = kAddTo
               then lib_plus lib (s gw (j * f + c)) (lib_dot lib (h, b) (cellsT s g h) (b, f) (cells s d f) j c)
               else lib_dot lib (h, b) (cellsT s g h) (b, f) (cells s d f) j c))
     \<and> (no_bias param = 0 \<longrightarrow>
          (\<forall>j<h. snd (Backward lib param out_grad in_data out_data req in_grad s) gb j
            = (if req ! kBias = kAddTo
               then lib_plus lib (s gb j) (lib_sum_rows lib (b, h) (cells s g h) j)
               else lib_sum_rows lib (b, h) (cells s g h) j)))
     \<and> (\<forall>i<b. \<forall>c<f. snd (Backward lib param out_grad in_data out_data req in_grad s) gd (i * f + c)
            = (if req ! kData = kAddTo
               then lib_plus lib (s gd (i * f + c)) (lib_dot lib (b, h) (cells s g h) (h, f) (cells s w f) i c)
               else lib_dot lib (b, h) (cells s g h) (h, f) (cells s w f) i c))
     \<and> (\<forall>a k. \<not> (a = gw \<and> k < h * f) \<and> \<not> (no_bias param = 0 \<and> a = gb \<and> k < h)
                \<and> \<not> (a = gd \<and> k < b * f)
            \<longrightarrow> snd (Backward lib param out_grad in_data out_data req in_grad s) a k = s a k)
     \<and> (\<forall>j<h. \<forall>c<f.
           val (lib_dot lib (h, b) (cellsT s g h) (b, f) (cells s d f) j c) = (\<Sum>i<b. val (s g (i * h + j)) * val (s d (i * f + c)))
           \<and> (req ! kWeight = kAddTo \<longrightarrow>
                val (lib_plus lib (s gw (j * f + c)) (lib_dot lib (h, b) (cellsT s g h) (b, f) (cells s d f) j c))
                  = val (s gw (j * f + c)) + val (lib_dot lib (h, b) (cellsT s g h) (b, f) (cells s d f) j c))
           \<longrightarrow> val (snd (Backward lib param out_grad in_data out_data req in_grad s) gw (j * f + c))
                 = (if req ! kWeight = kAddTo then val (s gw (j * f + c)) else 0)
                   + (\<Sum>i<b. val (s g (i * h + j)) * val (s d (i * f + c))))
     \<and> (no_bias param = 0 \<longrightarrow>
          (\<forall>j<h.
             val (lib_sum_rows lib (b, h) (cells s g h) j) = (\<Sum>i<b. val (s g (i * h + j)))
             \<and> (req ! kBias = kAddTo \<longrightarrow>
                  val (lib_plus lib (s gb j) (lib_sum_rows lib (b, h) (cells s g h) j))
                    = val (s gb j) + val (lib_sum_rows lib (b, h) (cells s g h) j))
             \<longrightarrow> val (snd (Backward lib param out_grad in_data out_data req in_grad s) gb j)
                   = (if req ! kBias = kAddTo then val (s gb j) else 0)
                     + (\<Sum>i<b. val (s g (i * h + j)))))
     \<and> (\<forall>i<b. \<forall>c<f.
           val (lib_dot lib (b, h) (cells s g h) (h, f) (cells s w f) i c) = (\<Sum>j<h. val (s g (i * h + j)) * val (s w (j * f + c)))
           \<and> (req ! kData = kAddTo \<longrightarrow>
                val (lib_plus lib (s gd (i * f + c)) (lib_dot lib (b, h) (cells s g h) (h, f) (cells s w f) i c))
                  = val (s gd (i * f + c)) + val (lib_dot lib (b, h) (cells s g h) (h, f) (cells s w f) i c))
           \<longrightarrow> val (snd (Backward lib param out_grad in_data out_data req in_grad s) gd (i * f + c))
                 = (if req ! kData = kAddTo then val (s gd (i * f + c)) else 0)
                   + (\<Sum>j<h. val (s g (i * h + j)) * val (s w (j * f + c))))"
proof -
  note eq = Backward_store [OF assms(1-15), of lib out_data s]
  have ok: "fst (Backward lib param out_grad in_data out_data req in_grad s) = None"
    by (simp add: eq)
  have gw: "(\<forall>j<h. \<forall>c<f. snd (Backward lib param out_grad in_data out_data req in_grad s) gw (j * f + c)
            = (if req ! kWeight = kAddTo
               then lib_plus lib (s gw (j * f + c)) (lib_dot lib (h, b) (cellsT s g h) (b, f) (cells s d f) j c)
               else lib_dot lib (h, b) (cellsT s g h) (b, f) (cells s d f) j c))"
    using assms(14,15) by (auto simp: eq cell_in_range)
  have gb: "(no_bias param = 0 \<longrightarrow>
          (\<forall>j<h. snd (Backward lib param out_grad in_data out_data req in_grad s) gb j
            = (if req ! kBias = kAddTo
               then lib_plus lib (s gb j) (lib_sum_rows lib (b, h) (cells s g h) j)
               else lib_sum_rows lib (b, h) (cells s g h) j)))"
    using assms(15) by (auto simp: eq)
  have gd: "(\<forall>i<b. \<forall>c<f. snd (Backward lib param out_grad in_data out_data req in_grad s) gd (i * f + c)
            = (if req ! kData = kAddTo
               then lib_plus lib (s gd (i * f + c)) (lib_dot lib (b, h) (cells s g h) (h, f) (cells s w f) i c)
               else lib_dot lib (b, h) (cells s g h) (h, f) (cells s w f) i c))"
    by (auto simp: eq cell_in_range)
  have frame: "(\<forall>a k. \<not> (a = gw \<and> k < h * f) \<and> \<not> (no_bias param = 0 \<and> a = gb \<and> k < h)
                \<and> \<not> (a = gd \<and> k < b * f)
            \<longrightarrow> snd (Backward lib param out_grad in_data out_data req in_grad s) a k = s a k)"
    by (auto simp: eq)
  have ex_gw: "(\<forall>j<h. \<forall>c<f.
           val (lib_dot lib (h, b) (cellsT s g h) (b, f) (cells s d f) j c) = (\<Sum>i<b. val (s g (i * h + j)) * val (s d (i * f + c)))
           \<and> (req ! kWeight = kAddTo \<longrightarrow>
                val (lib_plus lib (s gw (j * f + c)) (lib_dot lib (h, b) (cellsT s g h) (b, f) (cells s d f) j c))
                  = val (s gw (j * f + c)) + val (lib_dot lib (h, b) (cellsT s g h) (b, f) (cells s d f) j c))
           \<longrightarrow> val (snd (Backward lib param out_grad in_data out_data req in_grad s) gw (j * f + c))
                 = (if req ! kWeight = kAddTo then val (s gw (j * f + c)) else 0)
                   + (\<Sum>i<b. val (s g (i * h + j)) * val (s d (i * f + c))))"
    using gw by simp
  have ex_gb: "(no_bias param = 0 \<longrightarrow>
          (\<forall>j<h.
             val (lib_sum_rows lib (b, h) (cells s g h) j) = (\<Sum>i<b. val (s g (i * h + j)))
             \<and> (req ! kBias = kAddTo \<longrightarrow>
                  val (lib_plus lib (s gb j) (lib_sum_rows lib (b, h) (cells s g h) j))
                    = val (s gb j) + val (lib_sum_rows lib (b, h) (cells s g h) j))
             \<longrightarrow> val (snd (Backward lib param out_grad in_data out_data req in_grad s) gb j)
                   = (if req ! kBias = kAddTo then val (s gb j) else 0)
                     + (\<Sum>i<b. val (s g (i * h + j)))))"
    using gb by simp
  have ex_gd: "(\<forall>i<b. \<forall>c<f.
           val (lib_dot lib (b, h) (cells s g h) (h, f) (cells s w f) i c) = (\<Sum>j<h. val (s g (i * h + j)) * val (s w (j * f + c)))
           \<and> (req ! kData = kAddTo \<longrightarrow>
                val (lib_plus lib (s gd (i * f + c)) (lib_dot lib (b, h) (cells s g h) (h, f) (cells s w f) i c))
                  = val (s gd (i * f + c)) + val (lib_dot lib (b, h) (cells s g h) (h, f) (cells s w f) i c))
           \<longrightarrow> val (snd (Backward lib param out_grad in_data out_data req in_grad s) gd (i * f + c))
                 = (if req ! kData = kAddTo then val (s gd (i * f + c)) else 0)
                   + (\<Sum>j<h. val (s g (i * h + j)) * val (s w (j * f + c))))"
    using gd by simp
  from ok gw gb gd frame ex_gw ex_gb ex_gd show ?thesis by blast
qed

theorem Backward_writes_gradients_witness:
  "length example_out_grad = 1 \<and> length example_in_data = 3 \<and> length example_in_grad = 3
   \<and> [kWriteInplace, kAddTo, kWriteTo] ! kWeight \<noteq> kWriteInplace
   \<and> fst (Backward float32_lib \<lparr>num_hidden = 2, no_bias = 0\<rparr> example_out_grad example_in_data
            example_out_data [kWriteInplace, kAddTo, kWriteTo] example_in_grad example_store) = None
   \<and> map (snd (Backward float32_lib \<lparr>num_hidden = 2, no_bias = 0\<rparr> example_out_grad example_in_data
            example_out_data [kWriteInplace, kAddTo, kWriteTo] example_in_grad example_store) 5)
        [0, 1, 2, 3, 4, 5] = [105, 107, 109, 105, 107, 109]
   \<and> map (snd (Backward float32_lib \<lparr>num_hidden = 2, no_bias = 0\<rparr> example_out_grad example_in_data
            example_out_data [kWriteInplace, kAddTo, kWriteTo] example_in_grad example_store) 6)
        [0, 1] = [2, 2]
   \<and> map (snd (Backward float32_lib \<lparr>num_hidden = 2, no_bias = 0\<rparr> example_out_grad example_in_data
            example_out_data [kWriteInplace, kAddTo, kWriteTo] example_in_grad example_store) 0)
        [0, 1, 2, 3, 4, 5] = [1, 1, 0, 1, 1, 0]
   \<and> snd (Backward float32_lib \<lparr>num_hidden = 2, no_bias = 0\<rparr> example_out_grad example_in_data
            example_out_data [kWriteInplace, kAddTo, kWriteTo] example_in_grad example_store) 1 4 = 1
   \<and> real_of_int (snd (Backward float32_lib \<lparr>num_hidden = 2, no_bias = 0\<rparr> example_out_grad example_in_data
            example_out_data [kWriteInplace, kAddTo, kWriteTo] example_in_grad example_store) 6 0)
       = 0 + (\<Sum>i<2. real_of_int (example_store 4 (i * 2 + 0)))
   \<and> real_of_int (snd (Backward float32_lib \<lparr>num_hidden = 2, no_bias = 0\<rparr> example_out_grad example_in_data
            example_out_data [kWriteInplace, kAddTo, kWriteTo] example_in_grad example_store) 5 0)
       = real_of_int (example_store 5 0)
         + (\<Sum>i<2. real_of_int (example_store 4 (i * 2 + 0)) * real_of_int (example_store 0 (i * 3 + 0)))
   \<and> real_of_int (snd (Backward float32_lib \<lparr>num_hidden = 2, no_bias = 0\<rparr> example_out_grad example_in_data
            example_out_data [kWriteInplace, kAddTo, kWriteTo] example_in_grad example_store) 0 0)
       = 0 + (\<Sum>j<2. real_of_int (example_store 4 (0 * 2 + j)) * real_of_int (example_store 1 (j * 3 + 0)))"
proof -
  let ?p = "\<lparr>num_hidden = 2, no_bias = 0\<rparr>"
  let ?req = "[kWriteInplace, kAddTo, kWriteTo]"
  let ?s' = "snd (Backward float32_lib ?p example_out_grad example_in_data example_out_data
                    ?req example_in_grad example_store)"
  have 1: "length example_out_grad = 1" by (simp add: example_defs)
  have 2: "length example_in_data = (if no_bias ?p = 0 then 3 else 2)"
    by (simp add: example_defs)
  have 3: "length example_in_grad = (if no_bias ?p = 0 then 3 else 2)"
    by (simp add: example_defs)
  have 4: "length ?req = (if no_bias ?p = 0 then 3 else 2)" by simp
  have 5: "?req ! kWeight \<noteq> kWriteInplace" by (simp add: kWeight_def)
  have 6: "FlatTo2D (example_in_data ! kData) = \<lparr>dptr2 = 0, rows2 = 2, cols2 = 3\<rparr>"
    by (simp add: example_defs slot_defs FlatTo2D_def)
  have 7: "example_in_data ! kWeight = \<lparr>dptr = 1, tshape = [2, 3]\<rparr>"
    by (simp add: example_defs slot_defs)
  have 8: "FlatTo2D (example_out_grad ! kOut) = \<lparr>dptr2 = 4, rows2 = 2, cols2 = 2\<rparr>"
    by (simp add: example_defs slot_defs FlatTo2D_def)
  have 9: "example_in_grad ! kWeight = \<lparr>dptr = 5, tshape = [2, 3]\<rparr>"
    by (simp add: example_defs slot_defs)
  have 10: "no_bias ?p = 0 \<Longrightarrow> example_in_grad ! kBias = \<lparr>dptr = 6, tshape = [2]\<rparr>"
    by (simp add: example_defs slot_defs)
  have 11: "FlatTo2D (example_in_grad ! kData) = \<lparr>dptr2 = 0, rows2 = 2, cols2 = 3\<rparr>"
    by (simp add: example_defs slot_defs FlatTo2D_def)
  have 12: "(5::nat) \<noteq> 1" "(5::nat) \<noteq> 4" "(5::nat) \<noteq> 0" by simp_all
  have 13: "no_bias ?p = 0 \<Longrightarrow> (6::nat) \<noteq> 1 \<and> (6::nat) \<noteq> 4 \<and> (6::nat) \<noteq> 5 \<and> (6::nat) \<noteq> 0"
    by simp
  have 14: "(5::nat) \<noteq> 0" "(0::nat) \<noteq> 1" "(0::nat) \<noteq> 4" by simp_all
  note T = Backward_writes_gradients [OF 1 2 3 4 5 6 7 8 9 10 11 12 13 14,
      of float32_lib example_out_data example_store real_of_int]
  note ev = float32_lib_dot_2 float32_lib_sum_rows_2 float32_lib_plus cells_def cellsT_def
    float32_small example_store_def buffer_def
  from T have ok: "fst (Backward float32_lib ?p example_out_grad example_in_data
                    example_out_data ?req example_in_grad example_store) = None"
    by simp
  from T have gw: "\<And>j c. j < 2 \<Longrightarrow> c < 3 \<Longrightarrow> ?s' 5 (j * 3 + c)
      = lib_plus float32_lib (example_store 5 (j * 3 + c))
          (lib_dot float32_lib (2, 2) (cellsT example_store 4 2) (2, 3)
             (cells example_store 0 3) j c)"
    by (simp add: kWeight_def)
  from T have gb: "\<And>j. j < 2 \<Longrightarrow> ?s' 6 j
      = lib_sum_rows float32_lib (2, 2) (cells example_store 4 2) j"
    by (simp add: kBias_def)
  from T have gd: "\<And>i c. i < 2 \<Longrightarrow> c < 3 \<Longrightarrow> ?s' 0 (i * 3 + c)
      = lib_dot float32_lib (2, 2) (cells example_store 4 2) (2, 3)
          (cells example_store 1 3) i c"
    by (simp add: kData_def)
  from T have frame: "?s' 1 4 = example_store 1 4"
    by simp
  from T have exact_gb: "\<And>j. j < 2 \<Longrightarrow>
      real_of_int (lib_sum_rows float32_lib (2, 2) (cells example_store 4 2) j)
        = (\<Sum>i<2. real_of_int (example_store 4 (i * 2 + j)))
      \<and> real_of_int (lib_plus float32_lib (example_store 6 j)
                         (lib_sum_rows float32_lib (2, 2) (cells example_store 4 2) j))
        = real_of_int (example_store 6 j)
          + real_of_int (lib_sum_rows float32_lib (2, 2) (cells example_store 4 2) j)
      \<Longrightarrow> real_of_int (?s' 6 j)
            = (if ?req ! kBias = kAddTo then real_of_int (example_store 6 j) else 0)
              + (\<Sum>i<2. real_of_int (example_store 4 (i * 2 + j)))"
    by simp
  from T have exact_gw: "\<And>j c. j < 2 \<Longrightarrow> c < 3 \<Longrightarrow>
      real_of_int (lib_dot float32_lib (2, 2) (cellsT example_store 4 2) (2, 3)
                     (cells example_store 0 3) j c)
        = (\<Sum>i<2. real_of_int (example_store 4 (i * 2 + j))
                    * real_of_int (example_store 0 (i * 3 + c)))
      \<and> real_of_int (lib_plus float32_lib (example_store 5 (j * 3 + c))
                         (lib_dot float32_lib (2, 2) (cellsT example_store 4 2) (2, 3)
                            (cells example_store 0 3) j c))
        = real_of_int (example_store 5 (j * 3 + c))
          + real_of_int (lib_dot float32_lib (2, 2) (cellsT example_store 4 2) (2, 3)
                           (cells example_store 0 3) j c)
      \<Longrightarrow> real_of_int (?s' 5 (j * 3 + c))
            = (if ?req ! kWeight = kAddTo then real_of_int (example_store 5 (j * 3 + c)) else 0)
              + (\<Sum>i<2. real_of_int (example_store 4 (i * 2 + j))
                          * real_of_int (example_store 0 (i * 3 + c)))"
    by simp
  from T have exact_gd: "\<And>i c. i < 2 \<Longrightarrow> c < 3 \<Longrightarrow>
      real_of_int (lib_dot float32_lib (2, 2) (cells example_store 4 2) (2, 3)
                     (cells example_store 1 3) i c)
        = (\<Sum>j<2. real_of_int (example_store 4 (i * 2 + j))
                    * real_of_int (example_store 1 (j * 3 + c)))
      \<Longrightarrow> real_of_int (?s' 0 (i * 3 + c))
            = (if ?req ! kData = kAddTo then real_of_int (example_store 0 (i * 3 + c)) else 0)
              + (\<Sum>j<2. real_of_int (example_store 4 (i * 2 + j))
                          * real_of_int (example_store 1 (j * 3 + c)))"
    by (simp add: kData_def)
  have two: "{..<2::nat} = {0, 1}" by auto
  have w0: "?s' 5 0 = 105" using gw [of 0 0] by (simp add: ev)
  have w1: "?s' 5 1 = 107" using gw [of 0 1] by (simp add: ev)
  have "?s' 5 (0 * 3 + 2) = 109" using gw [of 0 2] by (simp only: ev) (simp add: ev)
  then have w2: "?s' 5 2 = 109" by (simp add: numeral_2_eq_2)
  have w3: "?s' 5 3 = 105" using gw [of 1 0] by (simp add: ev)
  have w4: "?s' 5 4 = 107" using gw [of 1 1] by (simp add: ev)
  have w5: "?s' 5 5 = 109" using gw [of 1 2] by (simp add: ev)
  have b0: "?s' 6 0 = 2" using gb [of 0] by (simp add: ev)
  have b1: "?s' 6 1 = 2" using gb [of 1] by (simp add: ev)
  have d0: "?s' 0 0 = 1" using gd [of 0 0] by (simp add: ev)
  have d1: "?s' 0 1 = 1" using gd [of 0 1] by (simp add: ev)
  have "?s' 0 (0 * 3 + 2) = 0" using gd [of 0 2] by (simp only: ev) (simp add: ev)
  then have d2: "?s' 0 2 = 0" by (simp add: numeral_2_eq_2)
  have d3: "?s' 0 3 = 1" using gd [of 1 0] by (simp add: ev)
  have d4: "?s' 0 4 = 1" using gd [of 1 1] by (simp add: ev)
  have d5: "?s' 0 5 = 0" using gd [of 1 2] by (simp add: ev)
  have gw_cells: "map (?s' 5) [0, 1, 2, 3, 4, 5] = [105, 107, 109, 105, 107, 109]"
    using w0 w1 w2 w3 w4 w5 by simp
  have gb_cells: "map (?s' 6) [0, 1] = [2, 2]"
    using b0 b1 by simp
  have gd_cells: "map (?s' 0) [0, 1, 2, 3, 4, 5] = [1, 1, 0, 1, 1, 0]"
    using d0 d1 d2 d3 d4 d5 by simp
  from frame have frame_cell: "?s' 1 4 = 1"
    by (simp add: example_store_def buffer_def)
  have exact: "real_of_int (?s' 6 0) = 0 + (\<Sum>i<2. real_of_int (example_store 4 (i * 2 + 0)))"
    using exact_gb [of 0] by (simp add: ev two kBias_def)
  have exact_w: "real_of_int (?s' 5 0) = real_of_int (example_store 5 0)
         + (\<Sum>i<2. real_of_int (example_store 4 (i * 2 + 0)) * real_of_int (example_store 0 (i * 3 + 0)))"
    using exact_gw [of 0 0] by (simp add: ev two kWeight_def)
  have exact_d: "real_of_int (?s' 0 0)
       = 0 + (\<Sum>j<2. real_of_int (example_store 4 (0 * 2 + j)) * real_of_int (example_store 1 (j * 3 + 0)))"
    using exact_gd [of 0 0] by (simp add: ev two kData_def)
  from 1 2 3 5 ok gw_cells gb_cells gd_cells frame_cell exact exact_w exact_d
  show ?thesis by simp
qed

subsection \<open>Contract violations\<close>

text \<open>
  C5, as the claim states it, fails: not every list has its slot count checked. In
  the first call below \<open>Forward\<close> is given three write modes for its one output; in
  the second \<open>Backward\<close> is given no output value at all; both run and write. In the
  third call \<open>Forward\<close> is given no write mode: its first statement reads the write
  mode of the output beyond the end of the vector, which no check catches.
\<close>

theorem unchecked_lists_counterexample:
  "fst (Forward float32_lib \<lparr>num_hidden = 2, no_bias = 0\<rparr> example_in_data
          [kWriteTo, kAddTo, kAddTo] example_out_data example_store) = None
   \<and> snd (Forward float32_lib \<lparr>num_hidden = 2, no_bias = 0\<rparr> example_in_data
          [kWriteTo, kAddTo, kAddTo] example_out_data example_store) 3 0 = 11
   \<and> example_store 3 0 = 0
   \<and> fst (Backward float32_lib \<lparr>num_hidden = 2, no_bias = 0\<rparr> example_out_grad example_in_data
          [] [kWriteTo, kWriteTo, kWriteTo] example_in_grad example_store) = None
   \<and> snd (Backward float32_lib \<lparr>num_hidden = 2, no_bias = 0\<rparr> example_out_grad example_in_data
          [] [kWriteTo, kWriteTo, kWriteTo] example_in_grad example_store) 6 0 = 2
   \<and> example_store 6 0 = 0
   \<and> Forward float32_lib \<lparr>num_hidden = 2, no_bias = 0\<rparr> example_in_data [] example_out_data
          example_store = (Some OutOfRange, example_store)"
proof -
  let ?p = "\<lparr>num_hidden = 2, no_bias = 0\<rparr>"
  note ev = float32_lib_dot_2 float32_lib_dot_3 float32_lib_sum_rows_2 float32_lib_plus
    cells_def cellsT_def float32_small example_store_def buffer_def
  have F: "Forward float32_lib ?p example_in_data [kWriteTo, kAddTo, kAddTo] example_out_data
             example_store
     = (None, example_store(3 := (\<lambda>k. if k < 2 * 2
                then (if no_bias ?p = 0
                      then lib_plus float32_lib
                             (lib_dot float32_lib (2, 3) (cells example_store 0 3) (3, 2)
                                (cellsT example_store 1 3) (k div 2) (k mod 2))
                             (example_store 2 (k mod 2))
                      else lib_dot float32_lib (2, 3) (cells example_store 0 3) (3, 2)
                             (cellsT example_store 1 3) (k div 2) (k mod 2))
                else example_store 3 k)))"
    by (rule Forward_store) (simp_all add: example_defs slot_defs FlatTo2D_def)
  have B: "Backward float32_lib ?p example_out_grad example_in_data [] [kWriteTo, kWriteTo, kWriteTo]
             example_in_grad example_store
     = (None, \<lambda>a k.
        if a = 0 \<and> k < 2 * 3
        then (if [kWriteTo, kWriteTo, kWriteTo] ! kData = kAddTo
              then lib_plus float32_lib (example_store 0 k)
                     (lib_dot float32_lib (2, 2) (cells example_store 4 2) (2, 3)
                        (cells example_store 1 3) (k div 3) (k mod 3))
              else lib_dot float32_lib (2, 2) (cells example_store 4 2) (2, 3)
                     (cells example_store 1 3) (k div 3) (k mod 3))
        else if no_bias ?p = 0 \<and> a = 6 \<and> k < 2
        then (if [kWriteTo, kWriteTo, kWriteTo] ! kBias = kAddTo
              then lib_plus float32_lib (example_store 6 k)
                     (lib_sum_rows float32_lib (2, 2) (cells example_store 4 2) k)
              else lib_sum_rows float32_lib (2, 2) (cells example_store 4 2) k)
        else if a = 5 \<and> k < 2 * 3
        then (if [kWriteTo, kWriteTo, kWriteTo] ! kWeight = kAddTo
              then lib_plus float32_lib (example_store 5 k)
                     (lib_dot float32_lib (2, 2) (cellsT example_store 4 2) (2, 3)
                        (cells example_store 0 3) (k div 3) (k mod 3))
              else lib_dot float32_lib (2, 2) (cellsT example_store 4 2) (2, 3)
                     (cells example_store 0 3) (k div 3) (k mod 3))
        else example_store a k)"
    by (rule Backward_store) (simp_all add: example_defs slot_defs FlatTo2D_def)
  have f1: "fst (Forward float32_lib ?p example_in_data [kWriteTo, kAddTo, kAddTo]
                   example_out_data example_store) = None"
    by (simp only: F fst_conv)
  have f2: "snd (Forward float32_lib ?p example_in_data [kWriteTo, kAddTo, kAddTo]
                   example_out_data example_store) 3 0 = 11"
    by (simp only: F snd_conv) (simp add: ev)
  have b1: "fst (Backward float32_lib ?p example_out_grad example_in_data [] 
                   [kWriteTo, kWriteTo, kWriteTo] example_in_grad example_store) = None"
    by (simp only: B fst_conv)
  have b2: "snd (Backward float32_lib ?p example_out_grad example_in_data []
                   [kWriteTo, kWriteTo, kWriteTo] example_in_grad example_store) 6 0 = 2"
    by (simp only: B snd_conv) (simp add: ev kBias_def)
  have z: "example_store 3 0 = 0" "example_store 6 0 = 0"
    by (simp_all add: example_store_def buffer_def)
  have u: "Forward float32_lib ?p example_in_data [] example_out_data example_store
             = (Some OutOfRange, example_store)"
    by (simp add: Forward_def kOut_def)
  from f1 f2 z b1 b2 u show ?thesis by (intro conjI)
qed

text \<open>
  C5, amended. A call that violates a condition the method checks fails before
  anything is written, so the store it leaves is the store it was given. For
  \<open>Forward\<close>, given a write-mode list that has the entry of the output, these are a
  wrong number of inputs, a number of outputs other than one, and a write mode of the
  output other than Overwrite. For \<open>Backward\<close> they are a number of output gradients
  other than one, a wrong number of input values, input gradients or write modes, and
  the write mode WriteInPlace for the weight gradient. The number of write modes given
  to \<open>Forward\<close> and the number of output values given to \<open>Backward\<close> are not
  checked: \<open>Forward\<close> depends on its write modes only through the entry of the
  output, and \<open>Backward\<close> does not depend on its output values.
\<close>

theorem contract_violation_fails_before_writing:
  "(kOut < length req
      \<and> (length in_data \<noteq> (if no_bias param = 0 then 3 else 2)
           \<or> length out_data \<noteq> 1 \<or> req ! kOut \<noteq> kWriteTo)
      \<longrightarrow> Forward lib param in_data req out_data s = (Some CheckFailed, s))
   \<and> (length out_grad \<noteq> 1
        \<or> length in_data' \<noteq> (if no_bias param = 0 then 3 else 2)
        \<or> length in_grad \<noteq> (if no_bias param = 0 then 3 else 2)
        \<or> length req' \<noteq> (if no_bias param = 0 then 3 else 2)
        \<or> req' ! kWeight = kWriteInplace
      \<longrightarrow> Backward lib param out_grad in_data' out_data' req' in_grad s = (Some CheckFailed, s))
   \<and> (kOut < length req \<and> kOut < length req'' \<and> req'' ! kOut = req ! kOut
      \<longrightarrow> Forward lib param in_data req'' out_data s = Forward lib param in_data req out_data s)
   \<and> Backward lib param out_grad in_data' out_data'' req' in_grad s
       = Backward lib param out_grad in_data' out_data' req' in_grad s"
proof -
  have fwd: "Forward lib param in_data req out_data s = (Some CheckFailed, s)"
    if "kOut < length req"
      "length in_data \<noteq> (if no_bias param = 0 then 3 else 2)
           \<or> length out_data \<noteq> 1 \<or> req ! kOut \<noteq> kWriteTo"
    using that by (auto simp: Forward_def)
  have bwd: "Backward lib param out_grad in_data' out_data' req' in_grad s = (Some CheckFailed, s)"
    if "length out_grad \<noteq> 1
        \<or> length in_data' \<noteq> (if no_bias param = 0 then 3 else 2)
        \<or> length in_grad \<noteq> (if no_bias param = 0 then 3 else 2)
        \<or> length req' \<noteq> (if no_bias param = 0 then 3 else 2)
        \<or> req' ! kWeight = kWriteInplace"
    using that
    by (auto simp: Backward_def Let_def get2_def split: sum.splits list.splits)
  have modes: "Forward lib param in_data req'' out_data s = Forward lib param in_data req out_data s"
    if "kOut < length req" "kOut < length req''" "req'' ! kOut = req ! kOut"
    using that by (simp add: Forward_def)
  have outs: "Backward lib param out_grad in_data' out_data'' req' in_grad s
       = Backward lib param out_grad in_data' out_data' req' in_grad s"
    by (simp add: Backward_def)
  from fwd bwd modes outs show ?thesis by blast
qed

theorem contract_violation_fails_before_writing_witness:
  "kOut < length [kAddTo] \<and> [kAddTo] ! kOut \<noteq> kWriteTo
   \<and> Forward float32_lib \<lparr>num_hidden = 2, no_bias = 0\<rparr> example_in_data [kAddTo]
        example_out_data example_store = (Some CheckFailed, example_store)
   \<and> [kWriteTo, kWriteInplace, kWriteTo] ! kWeight = kWriteInplace
   \<and> Backward float32_lib \<lparr>num_hidden = 2, no_bias = 0\<rparr> example_out_grad example_in_data
        example_out_data [kWriteTo, kWriteInplace, kWriteTo] example_in_grad example_store
       = (Some CheckFailed, example_store)
   \<and> kOut < length [kAddTo, kWriteTo] \<and> [kAddTo, kWriteTo] ! kOut = [kAddTo] ! kOut
   \<and> Forward float32_lib \<lparr>num_hidden = 2, no_bias = 0\<rparr> example_in_data [kAddTo, kWriteTo]
        example_out_data example_store
       = Forward float32_lib \<lparr>num_hidden = 2, no_bias = 0\<rparr> example_in_data [kAddTo]
        example_out_data example_store
   \<and> Backward float32_lib \<lparr>num_hidden = 2, no_bias = 0\<rparr> example_out_grad example_in_data
        [] [kWriteTo, kWriteInplace, kWriteTo] example_in_grad example_store
       = Backward float32_lib \<lparr>num_hidden = 2, no_bias = 0\<rparr> example_out_grad example_in_data
        example_out_data [kWriteTo, kWriteInplace, kWriteTo] example_in_grad example_store"
proof -
  have a: "kOut < length [kAddTo]" by (simp add: kOut_def)
  have b: "[kAddTo] ! kOut \<noteq> kWriteTo" by (simp add: kOut_def)
  have c: "[kWriteTo, kWriteInplace, kWriteTo] ! kWeight = kWriteInplace"
    by (simp add: kWeight_def)
  have d: "kOut < length [kAddTo, kWriteTo]" by (simp add: kOut_def)
  have e: "[kAddTo, kWriteTo] ! kOut = [kAddTo] ! kOut" by (simp add: kOut_def)
  note T = contract_violation_fails_before_writing
    [of "[kAddTo]" example_in_data "\<lparr>num_hidden = 2, no_bias = 0\<rparr>" example_out_data
        float32_lib example_store example_out_grad example_in_data example_in_grad
        "[kWriteTo, kWriteInplace, kWriteTo]" example_out_data "[kAddTo, kWriteTo]" "[]"]
  from T a b have f: "Forward float32_lib \<lparr>num_hidden = 2, no_bias = 0\<rparr> example_in_data [kAddTo]
        example_out_data example_store = (Some CheckFailed, example_store)"
    by blast
  from T c have g: "Backward float32_lib \<lparr>num_hidden = 2, no_bias = 0\<rparr> example_out_grad
        example_in_data example_out_data [kWriteTo, kWriteInplace, kWriteTo] example_in_grad
        example_store = (Some CheckFailed, example_store)"
    by blast
  from T a d e have h: "Forward float32_lib \<lparr>num_hidden = 2, no_bias = 0\<rparr> example_in_data
        [kAddTo, kWriteTo] example_out_data example_store
       = Forward float32_lib \<lparr>num_hidden = 2, no_bias = 0\<rparr> example_in_data [kAddTo]
        example_out_data example_store"
    by blast
  from T have i: "Backward float32_lib \<lparr>num_hidden = 2, no_bias = 0\<rparr> example_out_grad
        example_in_data [] [kWriteTo, kWriteInplace, kWriteTo] example_in_grad example_store
       = Backward float32_lib \<lparr>num_hidden = 2, no_bias = 0\<rparr> example_out_grad example_in_data
        example_out_data [kWriteTo, kWriteInplace, kWriteTo] example_in_grad example_store"
    by blast
  from a b c d e f g h i show ?thesis by (intro conjI)
qed

subsection \<open>The forward output is not read\<close>

text \<open>
  C6. \<open>Backward\<close> never reads the forward output. Two calls with the same tensor
  library, configuration, write modes, output gradients, input values and input
  gradients, started in stores that agree on the buffers of these three lists, have
  the same outcome and leave the same content in every gradient buffer, whatever the
  two lists of output values are and whatever the stores hold elsewhere.
\<close>

theorem Backward_ignores_forward_output:
  assumes "\<forall>a \<in> dptr ` (set out_grad \<union> set in_data \<union> set in_grad). s1 a = s2 a"
  shows "fst (Backward lib param out_grad in_data out_data1 req in_grad s1)
           = fst (Backward lib param out_grad in_data out_data2 req in_grad s2)
       \<and> (\<forall>a \<in> dptr ` set in_grad.
             snd (Backward lib param out_grad in_data out_data1 req in_grad s1) a
               = snd (Backward lib param out_grad in_data out_data2 req in_grad s2) a)"
proof -
  let ?A = "dptr ` (set out_grad \<union> set in_data \<union> set in_grad)"
  from assms have a: "agree_on ?A s1 s2" by (simp add: agree_on_def)
  have r: "reads_only ?A (Backward lib param out_grad in_data out_data1 req in_grad)"
    by (rule Backward_reads_only)
  have o: "Backward lib param out_grad in_data out_data2 req in_grad
             = Backward lib param out_grad in_data out_data1 req in_grad"
    by (rule Backward_out_data)
  from r a have "fst (Backward lib param out_grad in_data out_data1 req in_grad s1)
           = fst (Backward lib param out_grad in_data out_data1 req in_grad s2)"
    and "agree_on ?A (snd (Backward lib param out_grad in_data out_data1 req in_grad s1))
           (snd (Backward lib param out_grad in_data out_data1 req in_grad s2))"
    by (simp_all add: reads_only_def)
  then show ?thesis
    unfolding o by (auto simp: agree_on_def)
qed

theorem Backward_ignores_forward_output_witness:
  "example_store 0 = (example_store(3 := buffer [7, 7, 7, 7])) 0
   \<and> example_store 3 \<noteq> (example_store(3 := buffer [7, 7, 7, 7])) 3
   \<and> fst (Backward float32_lib \<lparr>num_hidden = 2, no_bias = 0\<rparr> example_out_grad example_in_data
            example_out_data [kWriteTo, kAddTo, kWriteTo] example_in_grad example_store)
       = fst (Backward float32_lib \<lparr>num_hidden = 2, no_bias = 0\<rparr> example_out_grad
            example_in_data [] [kWriteTo, kAddTo, kWriteTo] example_in_grad
            (example_store(3 := buffer [7, 7, 7, 7])))
   \<and> snd (Backward float32_lib \<lparr>num_hidden = 2, no_bias = 0\<rparr> example_out_grad example_in_data
            example_out_data [kWriteTo, kAddTo, kWriteTo] example_in_grad example_store) 5
       = snd (Backward float32_lib \<lparr>num_hidden = 2, no_bias = 0\<rparr> example_out_grad
            example_in_data [] [kWriteTo, kAddTo, kWriteTo] example_in_grad
            (example_store(3 := buffer [7, 7, 7, 7]))) 5"
proof -
  let ?s2 = "example_store(3 := buffer [7, 7, 7, 7])"
  have h: "\<forall>a \<in> dptr ` (set example_out_grad \<union> set example_in_data \<union> set example_in_grad).
             example_store a = ?s2 a"
    by (simp add: example_out_grad_def example_in_data_def example_in_grad_def)
  have differ: "example_store 3 \<noteq> ?s2 3"
  proof
    assume "example_store 3 = ?s2 3"
    then have "example_store 3 0 = ?s2 3 0" by simp
    then show False by (simp add: example_store_def buffer_def)
  qed
  have gw: "(5::nat) \<in> dptr ` set example_in_grad"
    by (simp add: example_in_grad_def)
  have same: "example_store 0 = ?s2 0" by simp
  note T = Backward_ignores_forward_output [OF h, of float32_lib
      "\<lparr>num_hidden = 2, no_bias = 0\<rparr>" example_out_data "[kWriteTo, kAddTo, kWriteTo]" "[]"]
  from T have status:
    "fst (Backward float32_lib \<lparr>num_hidden = 2, no_bias = 0\<rparr> example_out_grad example_in_data
            example_out_data [kWriteTo, kAddTo, kWriteTo] example_in_grad example_store)
       = fst (Backward float32_lib \<lparr>num_hidden = 2, no_bias = 0\<rparr> example_out_grad
            example_in_data [] [kWriteTo, kAddTo, kWriteTo] example_in_grad ?s2)"
    by (rule conjunct1)
  from T have "\<forall>a \<in> dptr ` set example_in_grad.
      snd (Backward float32_lib \<lparr>num_hidden = 2, no_bias = 0\<rparr> example_out_grad example_in_data
            example_out_data [kWriteTo, kAddTo, kWriteTo] example_in_grad example_store) a
       = snd (Backward float32_lib \<lparr>num_hidden = 2, no_bias = 0\<rparr> example_out_grad
            example_in_data [] [kWriteTo, kAddTo, kWriteTo] example_in_grad ?s2) a"
    by (rule conjunct2)
  then have grads:
    "snd (Backward float32_lib \<lparr>num_hidden = 2, no_bias = 0\<rparr> example_out_grad example_in_data
            example_out_data [kWriteTo, kAddTo, kWriteTo] example_in_grad example_store) 5
       = snd (Backward float32_lib \<lparr>num_hidden = 2, no_bias = 0\<rparr> example_out_grad
            example_in_data [] [kWriteTo, kAddTo, kWriteTo] example_in_grad ?s2) 5"
    using gw by (rule bspec)
  from same differ status grads show ?thesis by (intro conjI)
qed

end
